theory Spec2Isabelle
  imports Complex_Main "HOL-Library.Monad_Syntax"
begin

section \<open>StarMinder: the simulation engine (gameEngine.ts) and its host loop (App.tsx)\<close>

text \<open>
  The engine is a single function \<^verbatim>\<open>updateGame\<close> that mutates one world object per tick.
  The embedding passes that world explicitly and returns the updated one.

  Conventions of the embedding:
  \<^item> a JavaScript \<^verbatim>\<open>number\<close> is a \<^typ>\<open>real\<close>: arithmetic is exact, and there is
    no \<^verbatim>\<open>NaN\<close> and no \<^verbatim>\<open>Infinity\<close>. Where the source would divide by zero
    the model has no result (\<open>None\<close>); the initial \<^verbatim>\<open>Infinity\<close> of a running minimum is
    an absent candidate;
  \<^item> an object held in an array and mutated through a reference is addressed by its index
    in the list;
  \<^item> \<^verbatim>\<open>Math.random()\<close> and \<^verbatim>\<open>Date.now()\<close> are ambient: the world carries a stream
    \<open>rnd\<close> of the values they will return, consumed in call order;
  \<^item> a result \<open>None\<close> means that the source does not return a world of real numbers:
    it loops forever, throws, or divides by zero.
\<close>

subsection \<open>types.ts\<close>

datatype GamePhase = INTRO | IDLE | WARPING | SCANNING | LEVEL_UP | GAME_OVER | VICTORY

datatype EnemyType = TANK | RANGED | SWARM | BOSS

datatype WeaponType = MACHINE_GUN | MISSILE | LASER

text \<open>The string union \<^verbatim>\<open>'BULLET' | 'MISSILE' | 'LASER_BEAM' | 'ENEMY_ORB'\<close>.\<close>

datatype ProjectileType = BULLET | MISSILE_PROJ | LASER_BEAM | ENEMY_ORB

text \<open>
  Identifiers are strings built from a prefix and ambient numbers:
  \<^verbatim>\<open>'player'\<close>, \<^verbatim>\<open>`ast-${i}`\<close>, \<^verbatim>\<open>`p-${Math.random()}`\<close>,
  \<^verbatim>\<open>`e-${Date.now()}-${Math.random()}`\<close>.
\<close>

datatype Ident = PlayerId | AstId nat | RandId string real | EnemyId real real

text \<open>The text of a floating label: a literal, or a number printed with an optional prefix.\<close>

datatype Label = Lit string | Num int | Minus real

record Vector2 =
  X :: real
  Y :: real

record Entity =
  eid :: Ident
  position :: Vector2
  velocity :: Vector2
  radius :: real
  color :: string
  rotation :: real

record Weapon =
  wlevel :: real
  cooldown :: real
  maxCooldown :: real
  wdamage :: real
  wrange :: real

record Player = Entity +
  hp :: real
  maxHp :: real
  xp :: real
  maxXp :: real
  level :: real
  crystals :: real
  weapons :: "WeaponType \<Rightarrow> Weapon"

record Enemy = Entity +
  etype :: EnemyType
  ehp :: real
  emaxHp :: real
  attackCooldown :: real

record Projectile = Entity +
  damage :: real
  targetId :: "Ident option"
  duration :: real
  isEnemy :: bool
  ptype :: ProjectileType

record Particle = Entity +
  life :: real
  maxLife :: real
  pscale :: real

record Asteroid = Entity +
  isTarget :: bool
  isScanned :: bool

record FloatingText =
  ftid :: Ident
  ftext :: Label
  ftposition :: Vector2
  ftlife :: real
  ftcolor :: string
  ftsize :: real

record XpOrb = Entity +
  xpValue :: real
  isMagnetized :: bool

record Shockwave =
  swposition :: Vector2
  swradius :: real
  maxRadius :: real
  speed :: real
  swcolor :: string

record GameState =
  phase :: GamePhase
  player :: Player
  enemies :: "Enemy list"
  projectiles :: "Projectile list"
  particles :: "Particle list"
  asteroids :: "Asteroid list"
  floatingTexts :: "FloatingText list"
  xpOrbs :: "XpOrb list"
  shockwaves :: "Shockwave list"
  cameraShake :: real
  scanTimer :: real
  warpTimer :: real
  scanTargetId :: "Ident option"
  waveTimer :: real
  magnetTimer :: real
  justLeveledUp :: bool
  levelUpQueued :: bool
  justScanned :: bool

text \<open>The world threaded through a tick: the game state and the ambient number stream.\<close>

record World = GameState +
  rnd :: "nat \<Rightarrow> real"

subsection \<open>constants.ts\<close>

definition SCREEN_WIDTH :: real where "SCREEN_WIDTH = 1200"
definition SCREEN_HEIGHT :: real where "SCREEN_HEIGHT = 720"

definition COLORS_player :: string where "COLORS_player = ''#3b82f6''"
definition COLORS_enemyTank :: string where "COLORS_enemyTank = ''#ef4444''"
definition COLORS_enemyRanged :: string where "COLORS_enemyRanged = ''#f59e0b''"
definition COLORS_enemySwarm :: string where "COLORS_enemySwarm = ''#a855f7''"
definition COLORS_enemyBoss :: string where "COLORS_enemyBoss = ''#7f1d1d''"
definition COLORS_asteroid :: string where "COLORS_asteroid = ''#4b5563''"
definition COLORS_xpOrb :: string where "COLORS_xpOrb = ''#22d3ee''"
definition COLORS_textDamage :: string where "COLORS_textDamage = ''#fff''"
definition COLORS_shockwave :: string where "COLORS_shockwave = ''#06b6d4''"

definition TARGET_CRYSTALS :: real where "TARGET_CRYSTALS = 10"
definition SCAN_DURATION_SEC :: real where "SCAN_DURATION_SEC = 90"
definition WARP_DURATION_SEC :: real where "WARP_DURATION_SEC = 10"

definition ASTEROID_CONFIG_min :: int where "ASTEROID_CONFIG_min = 10"
definition ASTEROID_CONFIG_max :: int where "ASTEROID_CONFIG_max = 20"

definition PLAYER_CONFIG_baseHp :: real where "PLAYER_CONFIG_baseHp = 100"
definition PLAYER_CONFIG_baseXp :: real where "PLAYER_CONFIG_baseXp = 100"
definition PLAYER_CONFIG_hpGrowth :: real where "PLAYER_CONFIG_hpGrowth = 20"
definition PLAYER_CONFIG_xpGrowth :: real where "PLAYER_CONFIG_xpGrowth = 2"
definition PLAYER_CONFIG_magnetRange :: real where "PLAYER_CONFIG_magnetRange = 150"
definition PLAYER_CONFIG_magnetSpeed :: real where "PLAYER_CONFIG_magnetSpeed = 10"
definition PLAYER_CONFIG_passiveSpeed :: real where "PLAYER_CONFIG_passiveSpeed = 2"

definition TEXT_emp :: string where "TEXT_emp = ''EMP''"
definition TEXT_bossDefeated :: string where "TEXT_bossDefeated = ''BOSS DEFEATED''"

record WeaponStats =
  ws_cooldown :: real
  ws_damage :: real
  ws_range :: real
  ws_color :: string

fun WEAPON_STATS :: "WeaponType \<Rightarrow> WeaponStats" where
  "WEAPON_STATS MACHINE_GUN =
     \<lparr>ws_cooldown = 10, ws_damage = 15, ws_range = 400, ws_color = ''#ffff00''\<rparr>"
| "WEAPON_STATS MISSILE =
     \<lparr>ws_cooldown = 120, ws_damage = 80, ws_range = 600, ws_color = ''#ffaa00''\<rparr>"
| "WEAPON_STATS LASER =
     \<lparr>ws_cooldown = 1, ws_damage = 2, ws_range = 300, ws_color = ''#06b6d4''\<rparr>"

record EnemyStats =
  es_hp :: real
  es_speed :: real
  es_radius :: real
  es_score :: real

fun ENEMY_STATS :: "EnemyType \<Rightarrow> EnemyStats" where
  "ENEMY_STATS TANK = \<lparr>es_hp = 300, es_speed = 0.1375, es_radius = 25, es_score = 50\<rparr>"
| "ENEMY_STATS RANGED = \<lparr>es_hp = 100, es_speed = 0.175, es_radius = 18, es_score = 30\<rparr>"
| "ENEMY_STATS SWARM = \<lparr>es_hp = 30, es_speed = 0.5, es_radius = 10, es_score = 10\<rparr>"
| "ENEMY_STATS BOSS = \<lparr>es_hp = 5000, es_speed = 0.015, es_radius = 60, es_score = 500\<rparr>"

subsection \<open>Math helpers\<close>

text \<open>\<^verbatim>\<open>Math.atan2(y, x)\<close> on real arguments: the angle of the point \<open>(x, y)\<close> in \<open>(-\<pi>, \<pi>]\<close>.\<close>

definition atan2 :: "real \<Rightarrow> real \<Rightarrow> real" where
  "atan2 b a =
     (if 0 < a then arctan (b / a)
      else if a < 0 \<and> 0 \<le> b then arctan (b / a) + pi
      else if a < 0 then arctan (b / a) - pi
      else if 0 < b then pi / 2
      else if b < 0 then - (pi / 2)
      else 0)"

definition hypot :: "real \<Rightarrow> real \<Rightarrow> real" where
  "hypot a b = sqrt (a ^ 2 + b ^ 2)"

definition distV :: "Vector2 \<Rightarrow> Vector2 \<Rightarrow> real" where
  "distV v1 v2 = sqrt ((X v2 - X v1) ^ 2 + (Y v2 - Y v1) ^ 2)"

definition angle :: "Vector2 \<Rightarrow> Vector2 \<Rightarrow> real" where
  "angle v1 v2 = atan2 (Y v2 - Y v1) (X v2 - X v1)"

text \<open>
  \<^verbatim>\<open>isLineBlocked\<close>: the \<^verbatim>\<open>for\<close> loop over the asteroids, with its \<^verbatim>\<open>continue\<close>
  on a zero-length segment and its early \<^verbatim>\<open>return true\<close>.
\<close>

fun isLineBlocked :: "Vector2 \<Rightarrow> Vector2 \<Rightarrow> 'a Asteroid_scheme list \<Rightarrow> bool" where
  "isLineBlocked start finish [] = False"
| "isLineBlocked start finish (ast # asts) =
     (let l2 = (X finish - X start) ^ 2 + (Y finish - Y start) ^ 2 in
      if l2 = 0 then isLineBlocked start finish asts
      else
        let t = ((X (position ast) - X start) * (X finish - X start)
                 + (Y (position ast) - Y start) * (Y finish - Y start)) / l2;
            tClamped = max 0 (min 1 t);
            projX = X start + tClamped * (X finish - X start);
            projY = Y start + tClamped * (Y finish - Y start);
            distSq = (X (position ast) - projX) ^ 2 + (Y (position ast) - projY) ^ 2
        in if distSq < (radius ast) ^ 2 then True
           else isLineBlocked start finish asts)"

subsection \<open>Line of sight in double precision\<close>

text \<open>
  The source computes in IEEE 754 doubles: every arithmetic operation returns the double
  nearest to the exact result, ties going to the even mantissa. \<open>rd64\<close> is that rounding
  for results in the normal range (53 bits of mantissa; overflow and subnormal numbers
  are left out): \<open>ulp64 v\<close> is the spacing of the doubles around \<open>v\<close>, found by
  scaling \<open>\<bar>v\<bar>\<close> into \<open>[1, 2)\<close>.
\<close>

definition roundEven :: "real \<Rightarrow> int" where
  "roundEven q =
     (let f = \<lfloor>q\<rfloor>; d = q - of_int f
      in if d < 1 / 2 then f
         else if 1 / 2 < d then f + 1
         else if even f then f else f + 1)"

primrec ulpSearch :: "nat \<Rightarrow> real \<Rightarrow> real \<Rightarrow> real" where
  "ulpSearch 0 a u = u"
| "ulpSearch (Suc n) a u =
     (if 2 \<le> a then ulpSearch n (a / 2) (u * 2)
      else if a < 1 then ulpSearch n (a * 2) (u / 2)
      else u)"

definition ulp64 :: "real \<Rightarrow> real" where
  "ulp64 v = ulpSearch 2200 \<bar>v\<bar> (1 / 2 ^ 52)"

definition rd64 :: "real \<Rightarrow> real" where
  "rd64 v = (if v = 0 then 0 else of_int (roundEven (v / ulp64 v)) * ulp64 v)"

text \<open>
  \<^verbatim>\<open>isLineBlocked\<close> once more, with the rounding of every operation of lines 20 to 33
  written out and taken as a parameter: \<open>rd64\<close> gives the function as it runs, the
  identity gives \<open>isLineBlocked\<close> above. \<^verbatim>\<open>Math.pow(v, 2)\<close> is the rounded product
  \<open>v * v\<close>; \<^verbatim>\<open>Math.max\<close> and \<^verbatim>\<open>Math.min\<close> do not round.
\<close>

primrec isLineBlockedFl ::
  "(real \<Rightarrow> real) \<Rightarrow> Vector2 \<Rightarrow> Vector2 \<Rightarrow> 'a Asteroid_scheme list \<Rightarrow> bool" where
  "isLineBlockedFl rd start finish [] = False"
| "isLineBlockedFl rd start finish (ast # asts) =
     (let dx = rd (X finish - X start);
          dy = rd (Y finish - Y start);
          l2 = rd (rd (dx * dx) + rd (dy * dy)) in
      if l2 = 0 then isLineBlockedFl rd start finish asts
      else
        let t = rd (rd (rd (rd (X (position ast) - X start) * dx)
                        + rd (rd (Y (position ast) - Y start) * dy)) / l2);
            tClamped = max 0 (min 1 t);
            projX = rd (X start + rd (tClamped * dx));
            projY = rd (Y start + rd (tClamped * dy));
            ex = rd (X (position ast) - projX);
            ey = rd (Y (position ast) - projY);
            distSq = rd (rd (ex * ex) + rd (ey * ey))
        in if distSq < rd (radius ast * radius ast) then True
           else isLineBlockedFl rd start finish asts)"

subsection \<open>Ambient numbers and array helpers\<close>

text \<open>One call of \<^verbatim>\<open>Math.random()\<close> (or \<^verbatim>\<open>Date.now()\<close>): the head of the stream.\<close>

definition random :: "World \<Rightarrow> real \<times> World" where
  "random w = (rnd w 0, w\<lparr>rnd := \<lambda>n. rnd w (Suc n)\<rparr>)"

text \<open>\<^verbatim>\<open>Array.prototype.findIndex\<close>, with \<open>None\<close> for \<^verbatim>\<open>-1\<close>.\<close>

fun findIndex :: "('a \<Rightarrow> bool) \<Rightarrow> 'a list \<Rightarrow> nat option" where
  "findIndex P [] = None"
| "findIndex P (a # as) = (if P a then Some 0 else map_option Suc (findIndex P as))"

text \<open>\<^verbatim>\<open>xs.splice(i, 1)\<close>.\<close>

definition removeAt :: "nat \<Rightarrow> 'a list \<Rightarrow> 'a list" where
  "removeAt i xs = take i xs @ drop (Suc i) xs"

text \<open>
  \<^verbatim>\<open>for (let i = n - 1; i >= 0; i--) body(i)\<close>, the bound \<open>n\<close> read once before the loop;
  the second form is for a body that may have no result.
\<close>

primrec forDown :: "(nat \<Rightarrow> 'w \<Rightarrow> 'w) \<Rightarrow> nat \<Rightarrow> 'w \<Rightarrow> 'w" where
  "forDown body 0 w = w"
| "forDown body (Suc i) w = forDown body i (body i w)"

primrec forDownOpt :: "(nat \<Rightarrow> 'w \<Rightarrow> 'w option) \<Rightarrow> nat \<Rightarrow> 'w \<Rightarrow> 'w option" where
  "forDownOpt body 0 w = Some w"
| "forDownOpt body (Suc i) w = (case body i w of None \<Rightarrow> None | Some w' \<Rightarrow> forDownOpt body i w')"

text \<open>
  \<^verbatim>\<open>xs.forEach((_, k) => body(k))\<close>: the indices \<open>k, k + 1, \<dots>\<close> for \<open>n\<close> steps, where
  \<open>n\<close> is the length of the array when \<^verbatim>\<open>forEach\<close> is called. An index that no longer
  exists when its turn comes is skipped by the body.
\<close>

primrec forEachOpt :: "(nat \<Rightarrow> 'w \<Rightarrow> 'w option) \<Rightarrow> nat \<Rightarrow> nat \<Rightarrow> 'w \<Rightarrow> 'w option" where
  "forEachOpt body 0 k w = Some w"
| "forEachOpt body (Suc n) k w =
     (case body k w of None \<Rightarrow> None | Some w' \<Rightarrow> forEachOpt body n (Suc k) w')"

subsection \<open>Initialization\<close>

text \<open>The player object and the weapon table of \<^verbatim>\<open>createInitialState\<close>.\<close>

definition createInitialState_weapons :: "WeaponType \<Rightarrow> Weapon" where
  "createInitialState_weapons k =
     \<lparr>wlevel = (if k = MACHINE_GUN then 1 else 0),
      cooldown = ws_cooldown (WEAPON_STATS k),
      maxCooldown = ws_cooldown (WEAPON_STATS k),
      wdamage = ws_damage (WEAPON_STATS k),
      wrange = ws_range (WEAPON_STATS k)\<rparr>"

definition createInitialState_player :: Player where
  "createInitialState_player =
     \<lparr>eid = PlayerId,
      position = \<lparr>X = SCREEN_WIDTH / 2, Y = SCREEN_HEIGHT / 2\<rparr>,
      velocity = \<lparr>X = 0, Y = 0\<rparr>,
      radius = 20,
      color = COLORS_player,
      rotation = 0,
      hp = PLAYER_CONFIG_baseHp,
      maxHp = PLAYER_CONFIG_baseHp,
      xp = 0,
      maxXp = PLAYER_CONFIG_baseXp,
      level = 1,
      crystals = 0,
      weapons = createInitialState_weapons\<rparr>"

definition createInitialState :: GameState where
  "createInitialState =
     \<lparr>phase = INTRO,
      player = createInitialState_player,
      enemies = [],
      projectiles = [],
      particles = [],
      asteroids = [],
      floatingTexts = [],
      xpOrbs = [],
      shockwaves = [],
      cameraShake = 0,
      scanTimer = 0,
      warpTimer = 0,
      scanTargetId = None,
      waveTimer = 0,
      magnetTimer = 0,
      justLeveledUp = False,
      levelUpQueued = False,
      justScanned = False\<rparr>"

subsection \<open>Spawning logic\<close>

definition enemyColor :: "EnemyType \<Rightarrow> string" where
  "enemyColor ty =
     (if ty = BOSS then COLORS_enemyBoss
      else if ty = TANK then COLORS_enemyTank
      else if ty = RANGED then COLORS_enemyRanged
      else COLORS_enemySwarm)"

text \<open>The random edge position of \<^verbatim>\<open>spawnEnemy\<close> when no position is given.\<close>

definition edgePosition :: "World \<Rightarrow> Vector2 \<times> World" where
  "edgePosition w =
     (let (r, w1) = random w;
          edge = \<lfloor>r * 4\<rfloor>;
          buffer = 80;
          (r', w2) = random w1
      in if edge = 0 then (\<lparr>X = r' * SCREEN_WIDTH, Y = - buffer\<rparr>, w2)
         else if edge = 1 then (\<lparr>X = SCREEN_WIDTH + buffer, Y = r' * SCREEN_HEIGHT\<rparr>, w2)
         else if edge = 2 then (\<lparr>X = r' * SCREEN_WIDTH, Y = SCREEN_HEIGHT + buffer\<rparr>, w2)
         else (\<lparr>X = - buffer, Y = r' * SCREEN_HEIGHT\<rparr>, w2))"

text \<open>The random type of \<^verbatim>\<open>spawnEnemy\<close> when no type is forced.\<close>

definition randomType :: "World \<Rightarrow> EnemyType \<times> World" where
  "randomType w =
     (let (rand, w1) = random w;
          hasBoss = list_ex (\<lambda>e. etype e = BOSS) (enemies w1)
      in (if \<not> hasBoss \<and> rand > 0.99 \<and> scanTimer w1 > 20 then BOSS
          else if rand > 0.8 then TANK
          else if rand > 0.6 then RANGED
          else SWARM, w1))"

definition spawnEnemy :: "World \<Rightarrow> EnemyType option \<Rightarrow> Vector2 option \<Rightarrow> World" where
  "spawnEnemy w forceType pos =
     (let (xy, w1) = (case pos of Some p \<Rightarrow> (\<lparr>X = X p, Y = Y p\<rparr>, w) | None \<Rightarrow> edgePosition w);
          (ty, w2) = (case forceType of Some t \<Rightarrow> (t, w1) | None \<Rightarrow> randomType w1);
          stats = ENEMY_STATS ty;
          (now, w3) = random w2;
          (r, w4) = random w3;
          (c, w5) = random w4;
          enemy =
            \<lparr>eid = EnemyId now r,
             position = xy,
             velocity = \<lparr>X = 0, Y = 0\<rparr>,
             radius = es_radius stats,
             color = enemyColor ty,
             rotation = 0,
             etype = ty,
             ehp = es_hp stats,
             emaxHp = es_hp stats,
             attackCooldown = c * 200\<rparr>
      in w5\<lparr>enemies := enemies w5 @ [enemy]\<rparr>)"

text \<open>
  The \<^verbatim>\<open>do \<dots> while (d < 150)\<close> of \<^verbatim>\<open>spawnAsteroids\<close>: it samples until the position is
  at least 150 away from the player, and has no result when the stream never gives one.
\<close>

partial_function (option) samplePosition :: "World \<Rightarrow> (Vector2 \<times> World) option" where
  "samplePosition w =
     (let (rx, w1) = random w;
          (ry, w2) = random w1;
          pos = \<lparr>X = rx * SCREEN_WIDTH, Y = ry * SCREEN_HEIGHT\<rparr>;
          d = distV pos (position (player w2))
      in if d < 150 then samplePosition w2 else Some (pos, w2))"

fun asteroidLoop :: "nat \<Rightarrow> nat \<Rightarrow> World \<Rightarrow> World option" where
  "asteroidLoop 0 i w = Some w"
| "asteroidLoop (Suc n) i w =
     (case samplePosition w of
        None \<Rightarrow> None
      | Some (pos, w1) \<Rightarrow>
          let (vx, w2) = random w1;
              (vy, w3) = random w2;
              (r, w4) = random w3;
              (rot, w5) = random w4;
              ast =
                \<lparr>eid = AstId i,
                 position = pos,
                 velocity = \<lparr>X = (vx - 0.5) * 0.2, Y = (vy - 0.5) * 0.2\<rparr>,
                 radius = 20 + r * 30,
                 color = COLORS_asteroid,
                 rotation = rot * pi * 2,
                 isTarget = False,
                 isScanned = False\<rparr>
          in asteroidLoop n (Suc i) (w5\<lparr>asteroids := asteroids w5 @ [ast]\<rparr>))"

definition spawnAsteroids :: "World \<Rightarrow> World option" where
  "spawnAsteroids w =
     (let w0 = w\<lparr>asteroids := []\<rparr>;
          (r, w1) = random w0;
          count = ASTEROID_CONFIG_min
                  + \<lfloor>r * real_of_int (ASTEROID_CONFIG_max - ASTEROID_CONFIG_min + 1)\<rfloor>
      in asteroidLoop (nat count) 0 w1)"

fun spawnParticles :: "World \<Rightarrow> Vector2 \<Rightarrow> nat \<Rightarrow> string \<Rightarrow> World" where
  "spawnParticles w pos 0 col = w"
| "spawnParticles w pos (Suc n) col =
     (let (a, w1) = random w;
          ang = a * pi * 2;
          (s, w2) = random w1;
          spd = s * 5 + 2;
          (i, w3) = random w2;
          (r, w4) = random w3;
          (l, w5) = random w4;
          p =
            \<lparr>eid = RandId ''p-'' i,
             position = \<lparr>X = X pos, Y = Y pos\<rparr>,
             velocity = \<lparr>X = cos ang * spd, Y = sin ang * spd\<rparr>,
             radius = r * 4 + 1,
             color = col,
             rotation = 0,
             life = 40 + l * 20,
             maxLife = 60,
             pscale = 1\<rparr>
      in spawnParticles (w5\<lparr>particles := particles w5 @ [p]\<rparr>) pos n col)"

definition addFloatingText :: "World \<Rightarrow> Label \<Rightarrow> Vector2 \<Rightarrow> string \<Rightarrow> real \<Rightarrow> World" where
  "addFloatingText w txt pos col sz =
     (let (i, w1) = random w;
          ft =
            \<lparr>ftid = RandId ''ft-'' i,
             ftext = txt,
             ftposition = \<lparr>X = X pos, Y = Y pos - 10\<rparr>,
             ftlife = 60,
             ftcolor = col,
             ftsize = sz\<rparr>
      in w1\<lparr>floatingTexts := floatingTexts w1 @ [ft]\<rparr>)"

definition triggerShockwave :: "World \<Rightarrow> Vector2 \<Rightarrow> World" where
  "triggerShockwave w origin =
     w\<lparr>shockwaves := shockwaves w @
          [\<lparr>swposition = \<lparr>X = X origin, Y = Y origin\<rparr>,
            swradius = 10,
            maxRadius = max SCREEN_WIDTH SCREEN_HEIGHT * 1.2,
            speed = 25,
            swcolor = COLORS_shockwave\<rparr>],
       cameraShake := 30\<rparr>"

subsection \<open>Update loop, 1: timers\<close>

definition paused :: "GamePhase \<Rightarrow> bool" where
  "paused ph = (ph = INTRO \<or> ph = LEVEL_UP \<or> ph = GAME_OVER \<or> ph = VICTORY)"

definition warpStep :: "World \<Rightarrow> World option" where
  "warpStep w =
     (let w1 = w\<lparr>warpTimer := warpTimer w - 1 / 60\<rparr> in
      if warpTimer w1 \<le> 0 then
        (case spawnAsteroids (w1\<lparr>phase := IDLE\<rparr>) of
           None \<Rightarrow> None
         | Some w2 \<Rightarrow>
             Some (w2\<lparr>enemies := [], xpOrbs := [], projectiles := [], shockwaves := [],
                      levelUpQueued := False\<rparr>))
      else Some w1)"

definition scanComplete :: "World \<Rightarrow> World" where
  "scanComplete w =
     (let w1 = w\<lparr>phase := IDLE,
                 player := (player w)\<lparr>crystals := crystals (player w) + 1\<rparr>,
                 justScanned := True\<rparr>;
          w2 = (case findIndex (\<lambda>a. Some (eid a) = scanTargetId w1) (asteroids w1) of
                  None \<Rightarrow> w1
                | Some targetIndex \<Rightarrow>
                    let target = asteroids w1 ! targetIndex;
                        w1a = triggerShockwave w1 (position target);
                        w1b = spawnParticles w1a (position target) 20 COLORS_asteroid
                    in w1b\<lparr>asteroids := removeAt targetIndex (asteroids w1b)\<rparr>)
      in w2\<lparr>scanTargetId := None,
            asteroids :=
              map (\<lambda>a. (if \<not> isScanned a then a\<lparr>color := COLORS_asteroid\<rparr> else a)
                          \<lparr>isTarget := False\<rparr>)
                  (asteroids w2)\<rparr>)"

definition scanStep :: "World \<Rightarrow> World" where
  "scanStep w =
     (let w1 = w\<lparr>scanTimer := scanTimer w + 1 / 60, waveTimer := waveTimer w + 1\<rparr>;
          spawnRate = max 10 ((100 - scanTimer w1) * 0.5);
          w2 = (if waveTimer w1 > spawnRate then (spawnEnemy w1 None None)\<lparr>waveTimer := 0\<rparr>
                else w1)
      in if scanTimer w2 \<ge> SCAN_DURATION_SEC then scanComplete w2 else w2)"

definition timersStep :: "World \<Rightarrow> World option" where
  "timersStep w =
     (if phase w = WARPING then warpStep w
      else if phase w = SCANNING then Some (scanStep w)
      else Some w)"

subsection \<open>Update loop, 2: player logic (auto fire)\<close>

text \<open>\<^verbatim>\<open>d < minDst\<close>, where \<^verbatim>\<open>minDst\<close> starts as \<^verbatim>\<open>Infinity\<close>.\<close>

fun closer :: "real \<Rightarrow> (nat \<times> real) option \<Rightarrow> bool" where
  "closer d None = True"
| "closer d (Some (i, m)) = (d < m)"

text \<open>
  One round of the targeting \<^verbatim>\<open>forEach\<close>: the pair holds \<^verbatim>\<open>nearestVisible\<close> and
  \<^verbatim>\<open>nearestAny\<close> (as indices into the enemy array) with their distances.
\<close>

definition considerTarget ::
  "World \<Rightarrow> nat \<Rightarrow> (nat \<times> real) option \<times> (nat \<times> real) option
     \<Rightarrow> (nat \<times> real) option \<times> (nat \<times> real) option" where
  "considerTarget w i acc =
     (let e = enemies w ! i;
          d = distV (position (player w)) (position e);
          vis = (if \<not> isLineBlocked (position (player w)) (position e) (asteroids w)
                    \<and> closer d (fst acc)
                 then Some (i, d) else fst acc);
          any = (if closer d (snd acc) then Some (i, d) else snd acc)
      in (vis, any))"

definition findTargets :: "World \<Rightarrow> nat option \<times> nat option" where
  "findTargets w =
     (let acc = fold (considerTarget w) [0..<length (enemies w)] (None, None)
      in (map_option fst (fst acc), map_option fst (snd acc)))"

definition rotatePlayer :: "nat option \<Rightarrow> nat option \<Rightarrow> World \<Rightarrow> World" where
  "rotatePlayer nearestVisible nearestAny w =
     (case nearestVisible of
        Some i \<Rightarrow>
          w\<lparr>player := (player w)
               \<lparr>rotation := angle (position (player w)) (position (enemies w ! i))\<rparr>\<rparr>
      | None \<Rightarrow>
          (case nearestAny of
             Some i \<Rightarrow>
               if wlevel (weapons (player w) MISSILE) > 0
               then w\<lparr>player := (player w)
                      \<lparr>rotation := angle (position (player w)) (position (enemies w ! i))\<rparr>\<rparr>
               else w
           | None \<Rightarrow> w))"

definition setCooldown :: "WeaponType \<Rightarrow> real \<Rightarrow> World \<Rightarrow> World" where
  "setCooldown wType c w =
     w\<lparr>player := (player w)
          \<lparr>weapons := (weapons (player w))
               (wType := (weapons (player w) wType)\<lparr>cooldown := c\<rparr>)\<rparr>\<rparr>"

definition fireMachineGun :: "World \<Rightarrow> World" where
  "fireMachineGun w =
     (let weapon = weapons (player w) MACHINE_GUN;
          (i, w1) = random w;
          p =
            \<lparr>eid = RandId ''p-'' i,
             position = \<lparr>X = X (position (player w1)), Y = Y (position (player w1))\<rparr>,
             velocity = \<lparr>X = cos (rotation (player w1)) * 10,
                         Y = sin (rotation (player w1)) * 10\<rparr>,
             radius = 8,
             color = ws_color (WEAPON_STATS MACHINE_GUN),
             rotation = rotation (player w1),
             damage = wdamage weapon,
             targetId = None,
             duration = 60,
             isEnemy = False,
             ptype = BULLET\<rparr>
      in setCooldown MACHINE_GUN (maxCooldown weapon)
           (w1\<lparr>projectiles := projectiles w1 @ [p]\<rparr>))"

definition fireMissile :: "nat \<Rightarrow> World \<Rightarrow> World" where
  "fireMissile j w =
     (let weapon = weapons (player w) MISSILE;
          (i, w1) = random w;
          (a, w2) = random w1;
          (b, w3) = random w2;
          p =
            \<lparr>eid = RandId ''m-'' i,
             position = \<lparr>X = X (position (player w3)), Y = Y (position (player w3))\<rparr>,
             velocity = \<lparr>X = cos (rotation (player w3) + (a - 0.5)) * 2,
                         Y = sin (rotation (player w3) + (b - 0.5)) * 2\<rparr>,
             radius = 14,
             color = ws_color (WEAPON_STATS MISSILE),
             rotation = rotation (player w3),
             damage = wdamage weapon,
             targetId = Some (eid (enemies w3 ! j)),
             duration = 180,
             isEnemy = False,
             ptype = MISSILE_PROJ\<rparr>
      in setCooldown MISSILE (maxCooldown weapon)
           (w3\<lparr>projectiles := projectiles w3 @ [p]\<rparr>))"

definition fireLaser :: "nat \<Rightarrow> World \<Rightarrow> World" where
  "fireLaser j w =
     (let weapon = weapons (player w) LASER;
          target = enemies w ! j;
          w1 = w\<lparr>enemies := (enemies w)[j := target\<lparr>ehp := ehp target - wdamage weapon\<rparr>]\<rparr>;
          w2 = spawnParticles w1 (position target) 1 COLORS_player;
          (r, w3) = random w2;
          w4 = (if r > 0.8
                then addFloatingText w3 (Num \<lfloor>wdamage weapon\<rfloor>) (position target)
                       COLORS_textDamage 14
                else w3)
      in setCooldown LASER (maxCooldown weapon) w4)"

text \<open>
  The body of \<^verbatim>\<open>Object.entries(player.weapons).forEach\<close> for one weapon slot. The
  \<^verbatim>\<open>else\<close> that decrements the cooldown belongs to the outer \<^verbatim>\<open>if\<close>: a ready weapon
  whose target is out of range is left as it is.
\<close>

definition fireWeapon :: "nat option \<Rightarrow> nat option \<Rightarrow> WeaponType \<Rightarrow> World \<Rightarrow> World" where
  "fireWeapon nearestVisible nearestAny wType w =
     (let weapon = weapons (player w) wType;
          target = (if wType = MISSILE then nearestAny else nearestVisible)
      in if target \<noteq> None \<and> wlevel weapon > 0 \<and> cooldown weapon \<le> 0 then
           (let j = the target;
                distToTarget = distV (position (player w)) (position (enemies w ! j))
            in if distToTarget \<le> wrange weapon then
                 (case wType of
                    MACHINE_GUN \<Rightarrow> fireMachineGun w
                  | MISSILE \<Rightarrow> fireMissile j w
                  | LASER \<Rightarrow> fireLaser j w)
               else w)
         else setCooldown wType (cooldown weapon - 1) w)"

text \<open>The weapon slots in the key order of the object built by \<^verbatim>\<open>createInitialState\<close>.\<close>

definition playerStep :: "World \<Rightarrow> World" where
  "playerStep w =
     (let (nearestVisible, nearestAny) = findTargets w;
          w1 = rotatePlayer nearestVisible nearestAny w
      in fireWeapon nearestVisible nearestAny LASER
           (fireWeapon nearestVisible nearestAny MISSILE
              (fireWeapon nearestVisible nearestAny MACHINE_GUN w1)))"

subsection \<open>Update loop, 3: enemies\<close>

definition setEnemy :: "nat \<Rightarrow> Enemy \<Rightarrow> World \<Rightarrow> World" where
  "setEnemy k e w = w\<lparr>enemies := (enemies w)[k := e]\<rparr>"

text \<open>The three swarm enemies a boss spawns around itself.\<close>

fun bossSpawn :: "nat \<Rightarrow> Vector2 \<Rightarrow> World \<Rightarrow> World" where
  "bossSpawn 0 pos w = w"
| "bossSpawn (Suc n) pos w =
     (let (a, w1) = random w;
          (b, w2) = random w1
      in bossSpawn n pos
           (spawnEnemy w2 (Some SWARM)
              (Some \<lparr>X = X pos + (a - 0.5) * 50, Y = Y pos + (b - 0.5) * 50\<rparr>)))"

definition bossLogic :: "nat \<Rightarrow> World \<Rightarrow> World" where
  "bossLogic k w =
     (let e = enemies w ! k;
          e1 = e\<lparr>attackCooldown := attackCooldown e - 1\<rparr>
      in if attackCooldown e1 \<le> 0
         then bossSpawn 3 (position e1) (setEnemy k (e1\<lparr>attackCooldown := 180\<rparr>) w)
         else setEnemy k e1 w)"

definition rangedLogic :: "nat \<Rightarrow> World \<Rightarrow> World" where
  "rangedLogic k w =
     (let e = enemies w ! k;
          e1 = e\<lparr>attackCooldown := attackCooldown e - 1\<rparr>
      in if attackCooldown e1 \<le> 0 then
           (let w1 = setEnemy k (e1\<lparr>attackCooldown := 300\<rparr>) w;
                ang = angle (position e1) (position (player w1));
                (i, w2) = random w1;
                p =
                  \<lparr>eid = RandId ''ep-'' i,
                   position = \<lparr>X = X (position e1), Y = Y (position e1)\<rparr>,
                   velocity = \<lparr>X = cos ang * 4, Y = sin ang * 4\<rparr>,
                   radius = 5,
                   color = ''#ff0000'',
                   rotation = ang,
                   damage = 1,
                   targetId = None,
                   duration = 120,
                   isEnemy = True,
                   ptype = ENEMY_ORB\<rparr>
            in w2\<lparr>projectiles := projectiles w2 @ [p]\<rparr>)
         else setEnemy k e1 w)"

text \<open>The repulsion of one asteroid, added to the running \<^verbatim>\<open>avoidX, avoidY\<close>.\<close>

definition avoidAsteroid :: "Enemy \<Rightarrow> Asteroid \<Rightarrow> real \<times> real \<Rightarrow> real \<times> real" where
  "avoidAsteroid e ast acc =
     (let distToAst = distV (position e) (position ast);
          detectionRange = radius ast + radius e + 60
      in if distToAst < detectionRange then
           (let pushAng = angle (position ast) (position e);
                force = (detectionRange - distToAst) / detectionRange
            in (fst acc + cos pushAng * force * 2.5, snd acc + sin pushAng * force * 2.5))
         else acc)"

text \<open>
  Steering. The source divides by \<^verbatim>\<open>distToPlayer\<close> without a test; on an enemy that sits
  exactly on the player this is \<^verbatim>\<open>0 / 0\<close>, which the model has no number for.
\<close>

definition moveEnemy :: "nat \<Rightarrow> real \<Rightarrow> World \<Rightarrow> World option" where
  "moveEnemy k distToPlayer w =
     (if distToPlayer = 0 then None
      else
        let e = enemies w ! k;
            dx = X (position (player w)) - X (position e);
            dy = Y (position (player w)) - Y (position e);
            dirX = dx / distToPlayer;
            dirY = dy / distToPlayer;
            (avoidX, avoidY) = fold (avoidAsteroid e) (asteroids w) (0, 0);
            finalX = dirX + avoidX;
            finalY = dirY + avoidY;
            finalLen = hypot finalX finalY;
            finalX' = (if finalLen > 0 then finalX / finalLen else finalX);
            finalY' = (if finalLen > 0 then finalY / finalLen else finalY);
            spd = es_speed (ENEMY_STATS (etype e));
            vel = \<lparr>X = finalX' * spd, Y = finalY' * spd\<rparr>;
            e1 = e\<lparr>velocity := vel,
                   position := \<lparr>X = X (position e) + X vel, Y = Y (position e) + Y vel\<rparr>\<rparr>;
            e2 = (if finalLen > 0.1 then e1\<lparr>rotation := atan2 finalY' finalX'\<rparr> else e1)
        in Some (setEnemy k e2 w))"

definition contactDamage :: "nat \<Rightarrow> World \<Rightarrow> World" where
  "contactDamage k w =
     (let e = enemies w ! k in
      if distV (position e) (position (player w)) < radius e + radius (player w)
      then w\<lparr>player := (player w)\<lparr>hp := hp (player w) - 0.5\<rparr>, cameraShake := 2\<rparr>
      else w)"

text \<open>The body of \<^verbatim>\<open>state.enemies.forEach\<close> for the enemy at index \<open>k\<close>.\<close>

definition enemyStep :: "nat \<Rightarrow> World \<Rightarrow> World option" where
  "enemyStep k w =
     (let w1 = (if etype (enemies w ! k) = BOSS then bossLogic k w else w);
          e = enemies w1 ! k;
          distToPlayer = distV (position e) (position (player w1));
          hasLineOfSight = \<not> isLineBlocked (position e) (position (player w1)) (asteroids w1)
      in case (if etype e = RANGED \<and> distToPlayer < 300 \<and> hasLineOfSight
               then Some (rangedLogic k w1)
               else moveEnemy k distToPlayer w1) of
           None \<Rightarrow> None
         | Some w2 \<Rightarrow> Some (contactDamage k w2))"

text \<open>Enemies pushed during the loop (boss spawns) are not visited in this tick.\<close>

definition enemiesStep :: "World \<Rightarrow> World option" where
  "enemiesStep w = forEachOpt enemyStep (length (enemies w)) 0 w"

subsection \<open>Update loop, 4: projectiles\<close>

text \<open>
  The two \<^verbatim>\<open>while\<close> loops that bring the turn angle back into \<open>[-\<pi>, \<pi>]\<close>.
\<close>

function wrapUp :: "real \<Rightarrow> real" where
  "wrapUp d = (if d < - pi then wrapUp (d + pi * 2) else d)"
  by pat_completeness auto

termination wrapUp
proof (relation "measure (\<lambda>d. nat \<lceil>(- pi - d) / (2 * pi)\<rceil>)")
  show "wf (measure (\<lambda>d. nat \<lceil>(- pi - d) / (2 * pi)\<rceil>))" by simp
next
  fix d :: real
  assume a: "d < - pi"
  have "(- pi - (d + pi * 2)) / (2 * pi) = (- pi - d) / (2 * pi) - 1"
    by (simp add: field_simps)
  moreover have "0 < (- pi - d) / (2 * pi)" using a by simp
  ultimately have "nat \<lceil>(- pi - (d + pi * 2)) / (2 * pi)\<rceil> < nat \<lceil>(- pi - d) / (2 * pi)\<rceil>"
    by (smt (verit) ceiling_diff_one zero_less_ceiling zless_nat_conj)
  then show "(d + pi * 2, d) \<in> measure (\<lambda>d. nat \<lceil>(- pi - d) / (2 * pi)\<rceil>)" by simp
qed

function wrapDown :: "real \<Rightarrow> real" where
  "wrapDown d = (if d > pi then wrapDown (d - pi * 2) else d)"
  by pat_completeness auto

termination wrapDown
proof (relation "measure (\<lambda>d. nat \<lceil>(d - pi) / (2 * pi)\<rceil>)")
  show "wf (measure (\<lambda>d. nat \<lceil>(d - pi) / (2 * pi)\<rceil>))" by simp
next
  fix d :: real
  assume a: "pi < d"
  have "((d - pi * 2) - pi) / (2 * pi) = (d - pi) / (2 * pi) - 1"
    by (simp add: field_simps)
  moreover have "0 < (d - pi) / (2 * pi)" using a by simp
  ultimately have "nat \<lceil>((d - pi * 2) - pi) / (2 * pi)\<rceil> < nat \<lceil>(d - pi) / (2 * pi)\<rceil>"
    by (smt (verit) ceiling_diff_one zero_less_ceiling zless_nat_conj)
  then show "(d - pi * 2, d) \<in> measure (\<lambda>d. nat \<lceil>(d - pi) / (2 * pi)\<rceil>)" by simp
qed

declare wrapUp.simps [simp del] wrapDown.simps [simp del]

definition setProjectile :: "nat \<Rightarrow> Projectile \<Rightarrow> World \<Rightarrow> World" where
  "setProjectile i p w = w\<lparr>projectiles := (projectiles w)[i := p]\<rparr>"

text \<open>Homing: only a missile with a target id whose enemy still exists turns.\<close>

definition homing :: "nat \<Rightarrow> World \<Rightarrow> World" where
  "homing i w =
     (let p = projectiles w ! i in
      if ptype p = MISSILE_PROJ then
        (case targetId p of
           None \<Rightarrow> w
         | Some tid \<Rightarrow>
             (case find (\<lambda>e. eid e = tid) (enemies w) of
                None \<Rightarrow> w
              | Some target \<Rightarrow>
                  let ang = angle (position p) (position target);
                      currentAng = atan2 (Y (velocity p)) (X (velocity p));
                      diff = wrapDown (wrapUp (ang - currentAng));
                      turnRate = 0.1;
                      newAng = currentAng + max (- turnRate) (min turnRate diff);
                      spd = 4
                  in setProjectile i
                       (p\<lparr>velocity := \<lparr>X = cos newAng * spd, Y = sin newAng * spd\<rparr>\<rparr>) w))
      else w)"

definition integrate :: "nat \<Rightarrow> World \<Rightarrow> World" where
  "integrate i w =
     (let p = projectiles w ! i in
      setProjectile i
        (p\<lparr>position := \<lparr>X = X (position p) + X (velocity p),
                         Y = Y (position p) + Y (velocity p)\<rparr>,
           duration := duration p - 1\<rparr>) w)"

definition hitPlayer :: "Projectile \<Rightarrow> World \<Rightarrow> bool \<times> World" where
  "hitPlayer p w =
     (if distV (position p) (position (player w)) < radius (player w) + radius p
      then (True,
            addFloatingText
              (w\<lparr>player := (player w)\<lparr>hp := hp (player w) - damage p\<rparr>, cameraShake := 5\<rparr>)
              (Minus (damage p)) (position (player w)) ''#ff0000'' 14)
      else (False, w))"

text \<open>
  The splash of a missile: the inner \<^verbatim>\<open>state.enemies.forEach(subE => \<dots>)\<close>, which visits
  every enemy of the array, the one that was hit included.
\<close>

definition splash :: "Projectile \<Rightarrow> Enemy list \<Rightarrow> Enemy list" where
  "splash p es =
     map (\<lambda>subE. if distV (position p) (position subE) < 80
                 then subE\<lparr>ehp := ehp subE - damage p * 0.5\<rparr>
                 else subE) es"

text \<open>The \<^verbatim>\<open>for (const e of state.enemies)\<close> of a player projectile, left at the first hit.\<close>

definition hitEnemies :: "Projectile \<Rightarrow> World \<Rightarrow> bool \<times> World" where
  "hitEnemies p w =
     (case findIndex (\<lambda>e. distV (position p) (position e) < radius e + radius p) (enemies w) of
        None \<Rightarrow> (False, w)
      | Some j \<Rightarrow>
          let e = enemies w ! j;
              w1 = setEnemy j (e\<lparr>ehp := ehp e - damage p\<rparr>) w;
              w2 = addFloatingText w1 (Num \<lfloor>damage p\<rfloor>) (position e) ''#fff'' 14;
              w3 = spawnParticles w2 (position p) 3 ''#fff'';
              w4 = (if ptype p = MISSILE_PROJ
                    then w3\<lparr>enemies := splash p (enemies w3), cameraShake := 3\<rparr>
                    else w3)
          in (True, w4))"

definition hitAsteroids :: "Projectile \<Rightarrow> World \<Rightarrow> bool \<times> World" where
  "hitAsteroids p w =
     (if \<not> isEnemy p \<and> ptype p \<noteq> MISSILE_PROJ
         \<and> list_ex (\<lambda>ast. distV (position p) (position ast) < radius ast + radius p)
              (asteroids w)
      then (True, spawnParticles w (position p) 3 COLORS_asteroid)
      else (False, w))"

text \<open>The loop body for the projectile at index \<open>i\<close>.\<close>

definition projectileStep :: "nat \<Rightarrow> World \<Rightarrow> World" where
  "projectileStep i w =
     (let w1 = integrate i (homing i w);
          p = projectiles w1 ! i;
          (hit, w2) = hitAsteroids p w1;
          (hit', w3) = (if \<not> hit
                        then (if isEnemy p then hitPlayer p w2 else hitEnemies p w2)
                        else (hit, w2))
      in if hit' \<or> duration p \<le> 0
         then w3\<lparr>projectiles := removeAt i (projectiles w3)\<rparr>
         else w3)"

definition projectilesStep :: "World \<Rightarrow> World" where
  "projectilesStep w = forDown projectileStep (length (projectiles w)) w"

subsection \<open>Update loop, 5: shockwaves (EMP)\<close>

text \<open>
  The ring test for one enemy, with the radius the wave has after this tick's expansion:
  both comparisons are strict.
\<close>

definition inRing :: "Shockwave \<Rightarrow> Enemy \<Rightarrow> bool" where
  "inRing wave e =
     (let d = distV (position e) (swposition wave)
      in d < swradius wave \<and> d > swradius wave - speed wave * 2)"

definition empEnemy :: "Shockwave \<Rightarrow> nat \<Rightarrow> World \<Rightarrow> World" where
  "empEnemy wave j w =
     (let e = enemies w ! j in
      if inRing wave e
      then addFloatingText (setEnemy j (e\<lparr>ehp := 0\<rparr>) w) (Lit TEXT_emp) (position e)
             COLORS_shockwave 20
      else w)"

definition waveStep :: "nat \<Rightarrow> World \<Rightarrow> World" where
  "waveStep i w =
     (let wave0 = shockwaves w ! i;
          wave = wave0\<lparr>swradius := swradius wave0 + speed wave0\<rparr>;
          w1 = w\<lparr>shockwaves := (shockwaves w)[i := wave]\<rparr>;
          w2 = fold (empEnemy wave) [0..<length (enemies w1)] w1
      in if swradius wave > maxRadius wave then
           (let w3 = w2\<lparr>shockwaves := removeAt i (shockwaves w2)\<rparr> in
            if crystals (player w3) \<ge> TARGET_CRYSTALS then w3\<lparr>phase := VICTORY\<rparr> else w3)
         else w2)"

definition shockwavesStep :: "World \<Rightarrow> World" where
  "shockwavesStep w = forDown waveStep (length (shockwaves w)) w"

subsection \<open>Update loop, 6: cleanup of dead enemies\<close>

definition cleanupEnemy :: "bool \<Rightarrow> nat \<Rightarrow> World \<Rightarrow> World" where
  "cleanupEnemy isShockwaveActive i w =
     (let e = enemies w ! i in
      if ehp e \<le> 0 then
        (let isBoss = (etype e = BOSS);
             w1 = spawnParticles w (position e) (if isBoss then 100 else 30) (color e);
             (r, w2) = random w1;
             orb =
               \<lparr>eid = RandId ''xp-'' r,
                position = \<lparr>X = X (position e), Y = Y (position e)\<rparr>,
                velocity = \<lparr>X = 0, Y = 0\<rparr>,
                radius = (if isBoss then 12 else 4),
                color = COLORS_xpOrb,
                rotation = 0,
                xpValue = (if isBoss then 500 else 10),
                isMagnetized = (isShockwaveActive \<or> justScanned w2)\<rparr>;
             w3 = w2\<lparr>xpOrbs := xpOrbs w2 @ [orb], enemies := removeAt i (enemies w2)\<rparr>
         in if isBoss
            then (addFloatingText w3 (Lit TEXT_bossDefeated) (position e) ''#ffd700'' 40)
                   \<lparr>cameraShake := 50\<rparr>
            else w3)
      else w)"

definition cleanupStep :: "bool \<Rightarrow> World \<Rightarrow> World" where
  "cleanupStep isShockwaveActive w =
     forDown (cleanupEnemy isShockwaveActive) (length (enemies w)) w"

subsection \<open>Update loop, 7: XP orbs\<close>

definition setOrb :: "nat \<Rightarrow> XpOrb \<Rightarrow> World \<Rightarrow> World" where
  "setOrb i orb w = w\<lparr>xpOrbs := (xpOrbs w)[i := orb]\<rparr>"

text \<open>
  The periodic magnet pulse. The orb is picked by \<^verbatim>\<open>Math.floor(Math.random() * length)\<close>;
  an index outside the filtered array would make the source throw.
\<close>

definition magnetPulse :: "World \<Rightarrow> World option" where
  "magnetPulse w =
     (let w1 = w\<lparr>magnetTimer := magnetTimer w + 1\<rparr> in
      if magnetTimer w1 > 60 then
        (let w2 = w1\<lparr>magnetTimer := 0\<rparr>;
             distantOrbs =
               filter (\<lambda>i. \<not> isMagnetized (xpOrbs w2 ! i)
                            \<and> distV (position (xpOrbs w2 ! i)) (position (player w2)) > 200)
                      [0..<length (xpOrbs w2)]
         in if length distantOrbs > 0 then
              (let (r, w3) = random w2;
                   pick = \<lfloor>r * real (length distantOrbs)\<rfloor>
               in if 0 \<le> pick \<and> pick < int (length distantOrbs) then
                    (let i = distantOrbs ! nat pick
                     in Some (setOrb i ((xpOrbs w3 ! i)\<lparr>isMagnetized := True\<rparr>) w3))
                  else None)
            else Some w2)
      else Some w1)"

text \<open>
  The level-up \<^verbatim>\<open>while (player.xp >= player.maxXp)\<close>. It has no result when it does not
  terminate (a threshold that never gets above the remaining xp).
\<close>

partial_function (option) levelUpLoop :: "World \<Rightarrow> World option" where
  "levelUpLoop w =
     (if xp (player w) \<ge> maxXp (player w) then
        levelUpLoop
          (w\<lparr>player := (player w)
                \<lparr>xp := xp (player w) - maxXp (player w),
                 maxXp := real_of_int \<lfloor>maxXp (player w) * PLAYER_CONFIG_xpGrowth\<rfloor>,
                 level := level (player w) + 1,
                 maxHp := maxHp (player w) + PLAYER_CONFIG_hpGrowth,
                 hp := maxHp (player w) + PLAYER_CONFIG_hpGrowth\<rparr>,
             levelUpQueued := True\<rparr>)
      else Some w)"

text \<open>The collection of the orb at index \<open>i\<close>, once it is within 20 of the player.\<close>

definition collectOrb :: "nat \<Rightarrow> World \<Rightarrow> World option" where
  "collectOrb i w =
     (let orb = xpOrbs w ! i;
          w1 = w\<lparr>player := (player w)\<lparr>xp := xp (player w) + xpValue orb\<rparr>\<rparr>
      in case levelUpLoop w1 of
           None \<Rightarrow> None
         | Some w2 \<Rightarrow> Some (w2\<lparr>xpOrbs := removeAt i (xpOrbs w2)\<rparr>))"

definition orbStep :: "nat \<Rightarrow> World \<Rightarrow> World option" where
  "orbStep i w =
     (let orb = xpOrbs w ! i;
          d = distV (position orb) (position (player w))
      in if d < PLAYER_CONFIG_magnetRange \<or> isMagnetized orb then
           (let ang = angle (position orb) (position (player w));
                spd = (if isMagnetized orb then PLAYER_CONFIG_magnetSpeed
                       else PLAYER_CONFIG_passiveSpeed);
                w1 = setOrb i
                       (orb\<lparr>position := \<lparr>X = X (position orb) + cos ang * spd,
                                         Y = Y (position orb) + sin ang * spd\<rparr>\<rparr>) w
            in if d < 20 then collectOrb i w1 else Some w1)
         else Some w)"

definition xpOrbsStep :: "bool \<Rightarrow> World \<Rightarrow> World option" where
  "xpOrbsStep isShockwaveActive w =
     (case magnetPulse w of
        None \<Rightarrow> None
      | Some w1 \<Rightarrow>
          let w2 = (if justScanned w1 \<or> isShockwaveActive
                    then w1\<lparr>xpOrbs := map (\<lambda>orb. orb\<lparr>isMagnetized := True\<rparr>) (xpOrbs w1)\<rparr>
                    else w1)
          in forDownOpt orbStep (length (xpOrbs w2)) w2)"

subsection \<open>Update loop, 8: particles and text\<close>

text \<open>
  Both loops are \<^verbatim>\<open>forEach\<close> loops that splice the array they run over, so the element
  after a removed one moves into its place and is skipped. \<^verbatim>\<open>p.life / p.maxLife\<close> is
  not guarded in the source; a zero \<^verbatim>\<open>maxLife\<close> has no number in the model.
\<close>

definition particleStep :: "nat \<Rightarrow> World \<Rightarrow> World option" where
  "particleStep i w =
     (if i < length (particles w) then
        (let p = particles w ! i;
             p1 = p\<lparr>position := \<lparr>X = X (position p) + X (velocity p),
                                 Y = Y (position p) + Y (velocity p)\<rparr>,
                    life := life p - 1\<rparr>
         in if maxLife p1 = 0 then None
            else
              let p2 = p1\<lparr>pscale := life p1 / maxLife p1\<rparr>;
                  w1 = w\<lparr>particles := (particles w)[i := p2]\<rparr>
              in Some (if life p2 \<le> 0
                       then w1\<lparr>particles := removeAt i (particles w1)\<rparr>
                       else w1))
      else Some w)"

definition textStep :: "nat \<Rightarrow> World \<Rightarrow> World option" where
  "textStep i w =
     (if i < length (floatingTexts w) then
        (let t = floatingTexts w ! i;
             t1 = t\<lparr>ftposition := \<lparr>X = X (ftposition t), Y = Y (ftposition t) - 0.5\<rparr>,
                    ftlife := ftlife t - 1\<rparr>;
             w1 = w\<lparr>floatingTexts := (floatingTexts w)[i := t1]\<rparr>
         in Some (if ftlife t1 \<le> 0
                  then w1\<lparr>floatingTexts := removeAt i (floatingTexts w1)\<rparr>
                  else w1))
      else Some w)"

definition particlesTextStep :: "World \<Rightarrow> World option" where
  "particlesTextStep w =
     (case forEachOpt particleStep (length (particles w)) 0 w of
        None \<Rightarrow> None
      | Some w1 \<Rightarrow> forEachOpt textStep (length (floatingTexts w1)) 0 w1)"

subsection \<open>Update loop, 9 and 10: queued level up, game over, camera shake\<close>

definition levelUpStep :: "World \<Rightarrow> World" where
  "levelUpStep w =
     (if levelUpQueued w then
        (if length (shockwaves w) = 0
         then w\<lparr>justLeveledUp := True, levelUpQueued := False\<rparr>
         else w)
      else w)"

definition gameOverStep :: "World \<Rightarrow> World" where
  "gameOverStep w = (if hp (player w) \<le> 0 then w\<lparr>phase := GAME_OVER\<rparr> else w)"

definition shakeDecay :: "World \<Rightarrow> World" where
  "shakeDecay w =
     (let w1 = (if cameraShake w > 0 then w\<lparr>cameraShake := cameraShake w * 0.9\<rparr> else w)
      in if cameraShake w1 < 0.5 then w1\<lparr>cameraShake := 0\<rparr> else w1)"

subsection \<open>The tick\<close>

text \<open>
  \<^verbatim>\<open>updateGame\<close>: the paused phases return the state as it is, before anything else; the
  other phases run the numbered steps in order. \<^verbatim>\<open>isShockwaveActive\<close> is read once,
  before the shockwave loop.
\<close>

definition updateGame :: "World \<Rightarrow> World option" where
  "updateGame w =
     (if paused (phase w) then Some w
      else
        case timersStep w of
          None \<Rightarrow> None
        | Some w1 \<Rightarrow>
            (case enemiesStep (playerStep w1) of
               None \<Rightarrow> None
             | Some w3 \<Rightarrow>
                 let w4 = projectilesStep w3;
                     isShockwaveActive = (length (shockwaves w4) > 0);
                     w5 = shockwavesStep w4;
                     w6 = cleanupStep isShockwaveActive w5
                 in (case xpOrbsStep isShockwaveActive w6 of
                       None \<Rightarrow> None
                     | Some w7 \<Rightarrow>
                         (case particlesTextStep w7 of
                            None \<Rightarrow> None
                          | Some w8 \<Rightarrow>
                              Some (shakeDecay (gameOverStep (levelUpStep w8)))))))"

subsection \<open>The host loop (App.tsx)\<close>

text \<open>
  One fixed step of the host: it calls \<^verbatim>\<open>updateGame\<close> and then consumes the one-shot
  flags. The phase \<^verbatim>\<open>LEVEL_UP\<close> is entered here and nowhere else.
\<close>

definition hostTick :: "World \<Rightarrow> World option" where
  "hostTick w =
     (case updateGame w of
        None \<Rightarrow> None
      | Some newState \<Rightarrow>
          let s1 = (if justScanned newState then newState\<lparr>justScanned := False\<rparr>
                    else newState)
          in Some (if justLeveledUp s1
                   then s1\<lparr>justLeveledUp := False, phase := LEVEL_UP\<rparr>
                   else s1))"

text \<open>
  The upgrade menu: the four effects that \<^verbatim>\<open>generateUpgrades\<close> offers, and
  \<^verbatim>\<open>selectUpgrade\<close>, which applies one and resumes the game.
\<close>

datatype UpgradeId = MG_DMG | MISSILE_UP | LASER_UP | HEAL

definition setWeapon :: "WeaponType \<Rightarrow> Weapon \<Rightarrow> World \<Rightarrow> World" where
  "setWeapon k weapon w =
     w\<lparr>player := (player w)\<lparr>weapons := (weapons (player w))(k := weapon)\<rparr>\<rparr>"

definition applyUpgrade :: "UpgradeId \<Rightarrow> World \<Rightarrow> World" where
  "applyUpgrade opt s =
     (case opt of
        MG_DMG \<Rightarrow>
          (let wp = weapons (player s) MACHINE_GUN
           in setWeapon MACHINE_GUN (wp\<lparr>wdamage := wdamage wp + 5\<rparr>) s)
      | MISSILE_UP \<Rightarrow>
          (let wp = weapons (player s) MISSILE;
               wp1 = wp\<lparr>wlevel := wlevel wp + 1\<rparr>
           in setWeapon MISSILE
                (if wlevel wp1 > 1 then wp1\<lparr>maxCooldown := maxCooldown wp1 * 0.8\<rparr> else wp1) s)
      | LASER_UP \<Rightarrow>
          (let wp = weapons (player s) LASER;
               wp1 = wp\<lparr>wlevel := wlevel wp + 1\<rparr>
           in setWeapon LASER
                (if wlevel wp1 > 1 then wp1\<lparr>wdamage := wdamage wp1 * 1.5\<rparr> else wp1) s)
      | HEAL \<Rightarrow>
          s\<lparr>player := (player s)
               \<lparr>hp := min (maxHp (player s)) (hp (player s) + maxHp (player s) * 0.5)\<rparr>\<rparr>)"

definition selectUpgrade :: "UpgradeId \<Rightarrow> World \<Rightarrow> World" where
  "selectUpgrade opt w =
     (let s = applyUpgrade opt w in
      if scanTargetId s \<noteq> None then s\<lparr>phase := SCANNING\<rparr> else s\<lparr>phase := IDLE\<rparr>)"

subsection \<open>Concrete worlds\<close>

text \<open>
  A world in play with nothing in it: the initial player in the middle of the screen, the
  phase \<^verbatim>\<open>IDLE\<close>, and an ambient stream that always gives \<open>0\<close>.
\<close>

definition idleWorld :: World where
  "idleWorld =
     \<lparr>phase = IDLE,
      player = createInitialState_player,
      enemies = [],
      projectiles = [],
      particles = [],
      asteroids = [],
      floatingTexts = [],
      xpOrbs = [],
      shockwaves = [],
      cameraShake = 0,
      scanTimer = 0,
      warpTimer = 0,
      scanTargetId = None,
      waveTimer = 0,
      magnetTimer = 0,
      justLeveledUp = False,
      levelUpQueued = False,
      justScanned = False,
      rnd = (\<lambda>_. 0)\<rparr>"

text \<open>The upgrade menu is open and the camera still shakes.\<close>

definition levelUpWorld :: World where
  "levelUpWorld = idleWorld\<lparr>phase := LEVEL_UP, cameraShake := 30\<rparr>"

text \<open>The orb of a boss, lying on the player.\<close>

definition bossOrb :: XpOrb where
  "bossOrb =
     \<lparr>eid = RandId ''xp-'' 0,
      position = \<lparr>X = 600, Y = 360\<rparr>,
      velocity = \<lparr>X = 0, Y = 0\<rparr>,
      radius = 12,
      color = COLORS_xpOrb,
      rotation = 0,
      xpValue = 500,
      isMagnetized = False\<rparr>"

definition orbWorld :: World where
  "orbWorld = idleWorld\<lparr>xpOrbs := [bossOrb]\<rparr>"

text \<open>A wave of radius 50 and speed 25, and three enemies at distances 10, 25 and 45 from it.\<close>

definition ringEnemy :: "real \<Rightarrow> Enemy" where
  "ringEnemy d =
     \<lparr>eid = EnemyId 0 d,
      position = \<lparr>X = 600 + d, Y = 100\<rparr>,
      velocity = \<lparr>X = 0, Y = 0\<rparr>,
      radius = 10,
      color = COLORS_enemySwarm,
      rotation = 0,
      etype = SWARM,
      ehp = 30,
      emaxHp = 30,
      attackCooldown = 100\<rparr>"

definition ringWorld :: World where
  "ringWorld =
     idleWorld
       \<lparr>enemies := [ringEnemy 10, ringEnemy 25, ringEnemy 45],
        shockwaves :=
          [\<lparr>swposition = \<lparr>X = 600, Y = 100\<rparr>, swradius = 50, maxRadius = 1440, speed = 25,
            swcolor = COLORS_shockwave\<rparr>]\<rparr>"

text \<open>A tank, and a missile that has lost its target and is about to reach the tank.\<close>

definition tank :: Enemy where
  "tank =
     \<lparr>eid = EnemyId 0 0,
      position = \<lparr>X = 900, Y = 360\<rparr>,
      velocity = \<lparr>X = 0, Y = 0\<rparr>,
      radius = 25,
      color = COLORS_enemyTank,
      rotation = 0,
      etype = TANK,
      ehp = 300,
      emaxHp = 300,
      attackCooldown = 100\<rparr>"

definition lostMissile :: Projectile where
  "lostMissile =
     \<lparr>eid = RandId ''m-'' 0,
      position = \<lparr>X = 890, Y = 360\<rparr>,
      velocity = \<lparr>X = 4, Y = 0\<rparr>,
      radius = 14,
      color = ws_color (WEAPON_STATS MISSILE),
      rotation = 0,
      damage = 80,
      targetId = None,
      duration = 100,
      isEnemy = False,
      ptype = MISSILE_PROJ\<rparr>"

definition missileWorld :: World where
  "missileWorld = idleWorld\<lparr>enemies := [tank], projectiles := [lostMissile]\<rparr>"

text \<open>
  The tenth crystal has been collected, the EMP of that scan is about to leave the screen
  (its radius passes the maximum in the next tick), and a level-up was queued while it ran.
\<close>

definition empClearingWorld :: World where
  "empClearingWorld =
     idleWorld
       \<lparr>player := createInitialState_player\<lparr>crystals := 10\<rparr>,
        shockwaves :=
          [\<lparr>swposition = \<lparr>X = 600, Y = 200\<rparr>, swradius = 1435, maxRadius = 1440, speed = 25,
            swcolor = COLORS_shockwave\<rparr>],
        levelUpQueued := True\<rparr>"

text \<open>A tank 100 away from the player, in the open, and the laser unlocked and ready.\<close>

definition nearTank :: Enemy where
  "nearTank =
     \<lparr>eid = EnemyId 0 0,
      position = \<lparr>X = 700, Y = 360\<rparr>,
      velocity = \<lparr>X = 0, Y = 0\<rparr>,
      radius = 25,
      color = COLORS_enemyTank,
      rotation = 0,
      etype = TANK,
      ehp = 300,
      emaxHp = 300,
      attackCooldown = 100\<rparr>"

definition laserWorld :: World where
  "laserWorld =
     idleWorld
       \<lparr>player := createInitialState_player
          \<lparr>weapons := createInitialState_weapons
             (LASER := \<lparr>wlevel = 1, cooldown = 0, maxCooldown = 1, wdamage = 2, wrange = 300\<rparr>)\<rparr>,
        enemies := [nearTank]\<rparr>"

text \<open>
  An asteroid of radius 2 whose rim the segment from \<open>(0, 0)\<close> to \<open>(3, 4)\<close> touches in
  one point: its centre \<open>(4, 2)\<close> is exactly 2 away from the segment.
\<close>

definition tangentRock :: Asteroid where
  "tangentRock =
     \<lparr>eid = AstId 0,
      position = \<lparr>X = 4, Y = 2\<rparr>,
      velocity = \<lparr>X = 0, Y = 0\<rparr>,
      radius = 2,
      color = COLORS_asteroid,
      rotation = 0,
      isTarget = False,
      isScanned = False\<rparr>"


section \<open>Verification\<close>

subsection \<open>Line of sight\<close>

lemma clamp_flip: "max 0 (min 1 (1 - t)) = 1 - max 0 (min 1 (t::real))"
  by (auto simp: max_def min_def)

lemma proj_param_flip:
  fixes ax ay bx by' px py :: real
  assumes "(bx - ax)^2 + (by' - ay)^2 \<noteq> 0"
  shows "((px - bx) * (ax - bx) + (py - by') * (ay - by')) / ((ax - bx)^2 + (ay - by')^2)
       = 1 - ((px - ax) * (bx - ax) + (py - ay) * (by' - ay)) / ((bx - ax)^2 + (by' - ay)^2)"
proof -
  have e: "(ax - bx)^2 + (ay - by')^2 = (bx - ax)^2 + (by' - ay)^2"
    by (simp add: power2_commute)
  show ?thesis
    unfolding e using assms by (simp add: field_simps power2_eq_square)
qed

lemma isLineBlocked_exact_symmetric:
  "isLineBlocked a b asts = isLineBlocked b a asts"
proof (induction asts)
  case Nil
  show ?case by simp
next
  case (Cons ast asts)
  have e: "(X a - X b)^2 + (Y a - Y b)^2 = (X b - X a)^2 + (Y b - Y a)^2"
    by (simp add: power2_commute)
  show ?case
  proof (cases "(X b - X a)^2 + (Y b - Y a)^2 = 0")
    case True
    then show ?thesis using Cons.IH e by simp
  next
    case False
    define t where "t = ((X (position ast) - X a) * (X b - X a)
                 + (Y (position ast) - Y a) * (Y b - Y a)) / ((X b - X a)^2 + (Y b - Y a)^2)"
    define t' where "t' = ((X (position ast) - X b) * (X a - X b)
                 + (Y (position ast) - Y b) * (Y a - Y b)) / ((X a - X b)^2 + (Y a - Y b)^2)"
    have tt: "t' = 1 - t" unfolding t_def t'_def by (rule proj_param_flip[OF False])
    have px: "X b + max 0 (min 1 t') * (X a - X b) = X a + max 0 (min 1 t) * (X b - X a)"
      unfolding tt clamp_flip by (simp add: algebra_simps)
    have py: "Y b + max 0 (min 1 t') * (Y a - Y b) = Y a + max 0 (min 1 t) * (Y b - Y a)"
      unfolding tt clamp_flip by (simp add: algebra_simps)
    have F': "(X a - X b)^2 + (Y a - Y b)^2 \<noteq> 0" using False e by simp
    have ab: "isLineBlocked a b (ast # asts) =
        (if (X (position ast) - (X a + max 0 (min 1 t) * (X b - X a)))^2
            + (Y (position ast) - (Y a + max 0 (min 1 t) * (Y b - Y a)))^2 < (radius ast)^2
         then True else isLineBlocked a b asts)"
      unfolding t_def isLineBlocked.simps Let_def using False by (rule if_not_P)
    have ba: "isLineBlocked b a (ast # asts) =
        (if (X (position ast) - (X b + max 0 (min 1 t') * (X a - X b)))^2
            + (Y (position ast) - (Y b + max 0 (min 1 t') * (Y a - Y b)))^2 < (radius ast)^2
         then True else isLineBlocked b a asts)"
      unfolding t'_def isLineBlocked.simps Let_def using F' by (rule if_not_P)
    show ?thesis
      unfolding ab ba px py Cons.IH ..
  qed
qed

lemma isLineBlockedFl_exact:
  "isLineBlockedFl (\<lambda>v. v) a b asts = isLineBlocked a b asts"
  by (induction asts) (simp_all add: Let_def power2_eq_square)

text \<open>
  Claim C9, as amended. When no operation rounds (the rounding parameter is the identity),
  the occlusion test gives the same answer in both directions, for every pair of points
  and every list of obstacles: the clamped projection parameter of the reversed segment is
  one minus the original one, so both directions measure the distance to the same closest
  point.
\<close>

theorem isLineBlocked_symmetric_without_rounding:
  "isLineBlockedFl (\<lambda>v. v) a b asts = isLineBlockedFl (\<lambda>v. v) b a asts"
  unfolding isLineBlockedFl_exact by (rule isLineBlocked_exact_symmetric)

lemma ulpSearch_numeral:
  "ulpSearch (numeral k) a u =
     (if 2 \<le> a then ulpSearch (pred_numeral k) (a / 2) (u * 2)
      else if a < 1 then ulpSearch (pred_numeral k) (a * 2) (u / 2)
      else u)"
  by (simp add: numeral_eq_Suc)

lemma rd64_values:
  "rd64 0 = 0"
  "rd64 (- 4) = - 4"
  "rd64 (- 3) = - 3"
  "rd64 (- 2) = - 2"
  "rd64 (- (1351079888211149 / 1125899906842624)) = - (1351079888211149 / 1125899906842624)"
  "rd64 (- (3602879701896397 / 4503599627370496)) = - (3602879701896397 / 4503599627370496)"
  "rd64 (- (10808639105689191 / 18014398509481984)) = - (1351079888211149 / 2251799813685248)"
  "rd64 (1 / 5) = 3602879701896397 / 18014398509481984"
  "rd64 (4 / 5) = 3602879701896397 / 4503599627370496"
  "rd64 (1) = 1"
  "rd64 (1825416864328650878587207900201 / 1267650600228229401496703205376) = 1621295865853379 / 1125899906842624"
  "rd64 (900719925474099 / 562949953421312) = 900719925474099 / 562949953421312"
  "rd64 (3602879701896397 / 2251799813685248) = 3602879701896397 / 2251799813685248"
  "rd64 (2) = 2"
  "rd64 (5404319552844595 / 2251799813685248) = 5404319552844595 / 2251799813685248"
  "rd64 (10808639105689191 / 4503599627370496) = 1351079888211149 / 562949953421312"
  "rd64 (1351079888211149 / 562949953421312) = 1351079888211149 / 562949953421312"
  "rd64 (811296384146066456669919861801 / 316912650057057350374175801344) = 720575940379279 / 281474976710656"
  "rd64 (12980742146337070512478121581609 / 5070602400912917605986812821504) = 1441151880758559 / 562949953421312"
  "rd64 (3) = 3"
  "rd64 (14411518807585587 / 4503599627370496) = 3602879701896397 / 1125899906842624"
  "rd64 (3602879701896397 / 1125899906842624) = 3602879701896397 / 1125899906842624"
  "rd64 (4503599627370495 / 1125899906842624) = 4503599627370495 / 1125899906842624"
  "rd64 (4) = 4"
  "rd64 (4503599627370497 / 1125899906842624) = 4503599627370497 / 1125899906842624"
  "rd64 (5) = 5"
  "rd64 (8) = 8"
  "rd64 (9) = 9"
  "rd64 (12) = 12"
  "rd64 (16) = 16"
  "rd64 (20) = 20"
  "rd64 (25) = 25"
  by (simp_all add: rd64_def ulp64_def roundEven_def ulpSearch_numeral Let_def)

text \<open>
  Claim C9, as stated, fails on the function as it runs. For the points \<open>(0, 0)\<close> and
  \<open>(3, 4)\<close> and the asteroid at \<open>(4, 2)\<close> of radius 2 the squared distance comes out as
  \<open>4 - 2\<^sup>-\<^sup>5\<^sup>0\<close> in one direction (blocked) and as \<open>4 + 2\<^sup>-\<^sup>5\<^sup>0\<close> in the other (not
  blocked), because the projection parameters \<open>0.8\<close> and \<open>0.2\<close> are rounded
  differently. In exact arithmetic the squared distance is 4 and the segment is not blocked.
\<close>

theorem isLineBlocked_doubles_asymmetric:
  "isLineBlockedFl rd64 \<lparr>X = 0, Y = 0\<rparr> \<lparr>X = 3, Y = 4\<rparr> [tangentRock] = True
   \<and> isLineBlockedFl rd64 \<lparr>X = 3, Y = 4\<rparr> \<lparr>X = 0, Y = 0\<rparr> [tangentRock] = False
   \<and> isLineBlocked \<lparr>X = 0, Y = 0\<rparr> \<lparr>X = 3, Y = 4\<rparr> [tangentRock] = False"
  by (simp add: rd64_values Let_def tangentRock_def power2_eq_square)

subsection \<open>What the helpers leave alone\<close>

lemma random_frame [simp]:
  "player (snd (random w)) = player w" "phase (snd (random w)) = phase w"
  "enemies (snd (random w)) = enemies w" "projectiles (snd (random w)) = projectiles w"
  "xpOrbs (snd (random w)) = xpOrbs w" "shockwaves (snd (random w)) = shockwaves w"
  "asteroids (snd (random w)) = asteroids w" "levelUpQueued (snd (random w)) = levelUpQueued w"
  "justLeveledUp (snd (random w)) = justLeveledUp w" "justScanned (snd (random w)) = justScanned w"
  "particles (snd (random w)) = particles w" "floatingTexts (snd (random w)) = floatingTexts w"
  "scanTimer (snd (random w)) = scanTimer w"
  by (simp_all add: random_def)

lemma spawnParticles_frame [simp]:
  "player (spawnParticles w pos n col) = player w"
  "phase (spawnParticles w pos n col) = phase w"
  "enemies (spawnParticles w pos n col) = enemies w"
  "projectiles (spawnParticles w pos n col) = projectiles w"
  "xpOrbs (spawnParticles w pos n col) = xpOrbs w"
  "shockwaves (spawnParticles w pos n col) = shockwaves w"
  "asteroids (spawnParticles w pos n col) = asteroids w"
  "levelUpQueued (spawnParticles w pos n col) = levelUpQueued w"
  "justLeveledUp (spawnParticles w pos n col) = justLeveledUp w"
  "justScanned (spawnParticles w pos n col) = justScanned w"
  "floatingTexts (spawnParticles w pos n col) = floatingTexts w"
  by (induction n arbitrary: w; simp add: Let_def split_def random_def)+

lemma addFloatingText_frame [simp]:
  "player (addFloatingText w t pos col sz) = player w"
  "phase (addFloatingText w t pos col sz) = phase w"
  "enemies (addFloatingText w t pos col sz) = enemies w"
  "projectiles (addFloatingText w t pos col sz) = projectiles w"
  "xpOrbs (addFloatingText w t pos col sz) = xpOrbs w"
  "shockwaves (addFloatingText w t pos col sz) = shockwaves w"
  "asteroids (addFloatingText w t pos col sz) = asteroids w"
  "levelUpQueued (addFloatingText w t pos col sz) = levelUpQueued w"
  "justLeveledUp (addFloatingText w t pos col sz) = justLeveledUp w"
  "justScanned (addFloatingText w t pos col sz) = justScanned w"
  "particles (addFloatingText w t pos col sz) = particles w"
  by (simp_all add: addFloatingText_def random_def)

lemma edgePosition_snd: "snd (edgePosition w) = snd (random (snd (random w)))"
  by (simp add: edgePosition_def Let_def split_def)

lemma randomType_snd: "snd (randomType w) = snd (random w)"
  by (simp add: randomType_def Let_def split_def)

lemma spawnEnemy_frame [simp]:
  "player (spawnEnemy w ft pos) = player w"
  "phase (spawnEnemy w ft pos) = phase w"
  "projectiles (spawnEnemy w ft pos) = projectiles w"
  "xpOrbs (spawnEnemy w ft pos) = xpOrbs w"
  "shockwaves (spawnEnemy w ft pos) = shockwaves w"
  "asteroids (spawnEnemy w ft pos) = asteroids w"
  "levelUpQueued (spawnEnemy w ft pos) = levelUpQueued w"
  "justLeveledUp (spawnEnemy w ft pos) = justLeveledUp w"
  "justScanned (spawnEnemy w ft pos) = justScanned w"
  "particles (spawnEnemy w ft pos) = particles w"
  "floatingTexts (spawnEnemy w ft pos) = floatingTexts w"
  unfolding spawnEnemy_def Let_def split_def
  by (cases ft; cases pos; simp add: edgePosition_snd randomType_snd)+

lemma spawnEnemy_enemies:
  "\<exists>e. enemies (spawnEnemy w ft pos) = enemies w @ [e]"
  unfolding spawnEnemy_def Let_def split_def
  by (cases ft; cases pos; simp add: edgePosition_snd randomType_snd)

lemma set_removeAt: "set (removeAt i xs) \<subseteq> set xs"
  unfolding removeAt_def using set_take_subset[of i xs] set_drop_subset[of "Suc i" xs] by auto

lemma map_update_same: "(map f xs)[i := f (xs ! i)] = map f xs"
  by (metis list_update_id map_update)

lemma length_removeAt: "i < length xs \<Longrightarrow> length (removeAt i xs) = length xs - 1"
  unfolding removeAt_def by simp

subsection \<open>The paused phases\<close>

text \<open>
  Claim C4, as amended. A tick in the phase \<^verbatim>\<open>LEVEL_UP\<close> returns the world as it is:
  nothing changes, the camera shake included (the decay at the end of \<^verbatim>\<open>updateGame\<close> is
  never reached).
\<close>

theorem level_up_tick_changes_nothing:
  "phase w = LEVEL_UP \<Longrightarrow> updateGame w = Some w"
  by (simp add: updateGame_def paused_def)

theorem level_up_tick_changes_nothing_witness:
  "phase levelUpWorld = LEVEL_UP \<and> updateGame levelUpWorld = Some levelUpWorld"
proof -
  have h: "phase levelUpWorld = LEVEL_UP" by (simp add: levelUpWorld_def idleWorld_def)
  from level_up_tick_changes_nothing[OF h] h show ?thesis by simp
qed

text \<open>
  Claim C4, as stated, fails: with a camera shake of 30 a tick in \<^verbatim>\<open>LEVEL_UP\<close> leaves
  it at 30, where the decay step would have made it 27.
\<close>

theorem level_up_tick_keeps_camera_shake:
  "phase levelUpWorld = LEVEL_UP \<and> cameraShake levelUpWorld = 30
   \<and> map_option cameraShake (updateGame levelUpWorld) = Some 30
   \<and> cameraShake (shakeDecay levelUpWorld) = 27"
  by (simp add: updateGame_def paused_def shakeDecay_def levelUpWorld_def idleWorld_def)

subsection \<open>Experience and levels\<close>

lemma levelUpLoop_total:
  assumes "1 \<le> maxXp (player w)" "0 \<le> xp (player w)"
  shows "\<exists>w'. levelUpLoop w = Some w' \<and> 0 \<le> xp (player w') \<and> xp (player w') < maxXp (player w')
              \<and> 1 \<le> maxXp (player w') \<and> xpOrbs w' = xpOrbs w"
  using assms
proof (induction "nat \<lfloor>xp (player w)\<rfloor>" arbitrary: w rule: less_induct)
  case less
  show ?case
  proof (cases "xp (player w) \<ge> maxXp (player w)")
    case False
    then show ?thesis using less.prems by (subst levelUpLoop.simps) simp
  next
    case True
    define w1 where "w1 = w\<lparr>player := (player w)
                \<lparr>xp := xp (player w) - maxXp (player w),
                 maxXp := real_of_int \<lfloor>maxXp (player w) * PLAYER_CONFIG_xpGrowth\<rfloor>,
                 level := level (player w) + 1,
                 maxHp := maxHp (player w) + PLAYER_CONFIG_hpGrowth,
                 hp := maxHp (player w) + PLAYER_CONFIG_hpGrowth\<rparr>,
             levelUpQueued := True\<rparr>"
    have x1: "xp (player w1) = xp (player w) - maxXp (player w)" by (simp add: w1_def)
    have m1: "maxXp (player w1) = real_of_int \<lfloor>maxXp (player w) * 2\<rfloor>"
      by (simp add: w1_def PLAYER_CONFIG_xpGrowth_def)
    have p2: "0 \<le> xp (player w1)" using True x1 by simp
    have "(2::real) \<le> maxXp (player w) * 2" using less.prems(1) by simp
    then have "(2::int) \<le> \<lfloor>maxXp (player w) * 2\<rfloor>" by (simp add: le_floor_iff)
    then have p1: "1 \<le> maxXp (player w1)" unfolding m1 by linarith
    have "xp (player w1) \<le> xp (player w) - 1" using x1 less.prems(1) by simp
    then have "\<lfloor>xp (player w1)\<rfloor> \<le> \<lfloor>xp (player w)\<rfloor> - 1" by (metis floor_diff_one floor_mono)
    moreover have "0 \<le> \<lfloor>xp (player w1)\<rfloor>" using p2 by simp
    ultimately have m: "nat \<lfloor>xp (player w1)\<rfloor> < nat \<lfloor>xp (player w)\<rfloor>" by linarith
    from less.hyps[OF m p1 p2] obtain w' where
      w': "levelUpLoop w1 = Some w'" "0 \<le> xp (player w')" "xp (player w') < maxXp (player w')"
          "1 \<le> maxXp (player w')" "xpOrbs w' = xpOrbs w1" by blast
    have "levelUpLoop w = levelUpLoop w1"
      using True by (subst levelUpLoop.simps) (simp add: w1_def)
    moreover have "xpOrbs w1 = xpOrbs w" by (simp add: w1_def)
    ultimately show ?thesis using w' by simp
  qed
qed

lemma collectOrb_total:
  assumes "1 \<le> maxXp (player w)" "0 \<le> xp (player w)" "0 \<le> xpValue (xpOrbs w ! i)"
  shows "\<exists>w'. collectOrb i w = Some w' \<and> 0 \<le> xp (player w') \<and> xp (player w') < maxXp (player w')
              \<and> 1 \<le> maxXp (player w') \<and> xpOrbs w' = removeAt i (xpOrbs w)"
proof -
  define w1 where "w1 = w\<lparr>player := (player w)\<lparr>xp := xp (player w) + xpValue (xpOrbs w ! i)\<rparr>\<rparr>"
  have "1 \<le> maxXp (player w1)" "0 \<le> xp (player w1)" using assms by (simp_all add: w1_def)
  from levelUpLoop_total[OF this] obtain w2 where
    w2: "levelUpLoop w1 = Some w2" "0 \<le> xp (player w2)" "xp (player w2) < maxXp (player w2)"
        "1 \<le> maxXp (player w2)" "xpOrbs w2 = xpOrbs w1" by blast
  have "collectOrb i w = Some (w2\<lparr>xpOrbs := removeAt i (xpOrbs w2)\<rparr>)"
    using w2(1) by (simp add: collectOrb_def Let_def w1_def)
  moreover have "xpOrbs w1 = xpOrbs w" by (simp add: w1_def)
  ultimately show ?thesis using w2 by simp
qed

lemma orbStep_total:
  assumes "0 \<le> xp (player w)" "xp (player w) < maxXp (player w)" "1 \<le> maxXp (player w)"
    and "i < length (xpOrbs w)" "\<forall>orb \<in> set (xpOrbs w). 0 \<le> xpValue orb"
  shows "\<exists>w'. orbStep i w = Some w' \<and> 0 \<le> xp (player w') \<and> xp (player w') < maxXp (player w')
              \<and> 1 \<le> maxXp (player w') \<and> i \<le> length (xpOrbs w')
              \<and> (\<forall>orb \<in> set (xpOrbs w'). 0 \<le> xpValue orb)"
proof -
  define orb where "orb = xpOrbs w ! i"
  define d where "d = distV (position orb) (position (player w))"
  define orb' where "orb' = orb\<lparr>position :=
      \<lparr>X = X (position orb) + cos (angle (position orb) (position (player w)))
                * (if isMagnetized orb then PLAYER_CONFIG_magnetSpeed else PLAYER_CONFIG_passiveSpeed),
       Y = Y (position orb) + sin (angle (position orb) (position (player w)))
                * (if isMagnetized orb then PLAYER_CONFIG_magnetSpeed else PLAYER_CONFIG_passiveSpeed)\<rparr>\<rparr>"
  define w1 where "w1 = setOrb i orb' w"
  have v: "0 \<le> xpValue orb" using assms(4,5) by (simp add: orb_def)
  have v': "xpValue orb' = xpValue orb" by (simp add: orb'_def)
  have o1: "xpOrbs w1 = (xpOrbs w)[i := orb']" by (simp add: w1_def setOrb_def)
  have p1: "player w1 = player w" by (simp add: w1_def setOrb_def)
  have all1: "\<forall>o' \<in> set (xpOrbs w1). 0 \<le> xpValue o'"
  proof
    fix o' assume "o' \<in> set (xpOrbs w1)"
    then have "o' \<in> insert orb' (set (xpOrbs w))"
      unfolding o1 using set_update_subset_insert by fastforce
    then show "0 \<le> xpValue o'" using assms(5) v v' by auto
  qed
  have l1: "length (xpOrbs w1) = length (xpOrbs w)" by (simp add: o1)
  consider (skip) "\<not> (d < PLAYER_CONFIG_magnetRange \<or> isMagnetized orb)"
    | (move) "d < PLAYER_CONFIG_magnetRange \<or> isMagnetized orb" "\<not> d < 20"
    | (collect) "d < PLAYER_CONFIG_magnetRange \<or> isMagnetized orb" "d < 20" by blast
  then show ?thesis
  proof cases
    case skip
    then have "orbStep i w = Some w"
      by (simp add: orbStep_def Let_def orb_def d_def)
    then show ?thesis using assms by simp
  next
    case move
    then have "orbStep i w = Some w1"
      by (simp add: orbStep_def Let_def orb_def d_def w1_def orb'_def)
    then show ?thesis using assms all1 l1 p1 by simp
  next
    case collect
    then have e: "orbStep i w = collectOrb i w1"
      by (simp add: orbStep_def Let_def orb_def d_def w1_def orb'_def)
    have "0 \<le> xpValue (xpOrbs w1 ! i)" using assms(4) v v' by (simp add: o1)
    from collectOrb_total[OF _ _ this] assms p1 obtain w' where
      w': "collectOrb i w1 = Some w'" "0 \<le> xp (player w')" "xp (player w') < maxXp (player w')"
        "1 \<le> maxXp (player w')" "xpOrbs w' = removeAt i (xpOrbs w1)" by auto
    have "\<forall>o' \<in> set (xpOrbs w'). 0 \<le> xpValue o'"
      using all1 set_removeAt[of i "xpOrbs w1"] w'(5) by auto
    moreover have "i \<le> length (xpOrbs w')"
      using w'(5) l1 assms(4) length_removeAt[of i "xpOrbs w1"] by simp
    ultimately show ?thesis using e w' by simp
  qed
qed

lemma orbLoop_total:
  assumes "0 \<le> xp (player w)" "xp (player w) < maxXp (player w)" "1 \<le> maxXp (player w)"
    and "n \<le> length (xpOrbs w)" "\<forall>orb \<in> set (xpOrbs w). 0 \<le> xpValue orb"
  shows "\<exists>w'. forDownOpt orbStep n w = Some w' \<and> 0 \<le> xp (player w')
              \<and> xp (player w') < maxXp (player w') \<and> 1 \<le> maxXp (player w')"
  using assms
proof (induction n arbitrary: w)
  case 0
  then show ?case by simp
next
  case (Suc n)
  from Suc.prems have "n < length (xpOrbs w)" by simp
  from orbStep_total[OF Suc.prems(1,2,3) this Suc.prems(5)] obtain w1 where
    w1: "orbStep n w = Some w1" "0 \<le> xp (player w1)" "xp (player w1) < maxXp (player w1)"
      "1 \<le> maxXp (player w1)" "n \<le> length (xpOrbs w1)"
      "\<forall>orb \<in> set (xpOrbs w1). 0 \<le> xpValue orb" by blast
  from Suc.IH[OF w1(2-6)] w1(1) show ?case by simp
qed

lemma magnetPulse_total:
  assumes "0 \<le> rnd w 0" "rnd w 0 < 1"
  shows "\<exists>w'. magnetPulse w = Some w' \<and> player w' = player w
              \<and> map xpValue (xpOrbs w') = map xpValue (xpOrbs w)"
proof -
  define w2 where "w2 = w\<lparr>magnetTimer := 0\<rparr>"
  define ds where "ds = filter (\<lambda>i. \<not> isMagnetized (xpOrbs w2 ! i)
                            \<and> distV (position (xpOrbs w2 ! i)) (position (player w2)) > 200)
                      [0..<length (xpOrbs w2)]"
  define pick where "pick = \<lfloor>rnd w 0 * real (length ds)\<rfloor>"
  show ?thesis
  proof (cases "magnetTimer w + 1 > 60 \<and> length ds > 0")
    case False
    then show ?thesis
      by (auto simp: magnetPulse_def Let_def ds_def w2_def)
  next
    case True
    have "0 \<le> rnd w 0 * real (length ds)" using assms(1) by simp
    then have p0: "0 \<le> pick" by (simp add: pick_def)
    have "rnd w 0 * real (length ds) < real (length ds)" using assms(2) True by simp
    then have p1: "pick < int (length ds)" unfolding pick_def by (simp add: floor_less_iff)
    define i where "i = ds ! nat pick"
    have "magnetPulse w = Some (setOrb i ((xpOrbs w ! i)\<lparr>isMagnetized := True\<rparr>) (snd (random w2)))"
      using True p0 p1
      by (simp add: magnetPulse_def Let_def split_def ds_def[symmetric] w2_def[symmetric]
            pick_def[symmetric] i_def[symmetric] random_def)
         (simp add: w2_def pick_def i_def)
    moreover have "map xpValue ((xpOrbs w)[i := (xpOrbs w ! i)\<lparr>isMagnetized := True\<rparr>])
                    = map xpValue (xpOrbs w)"
      by (simp add: map_update map_update_same)
    ultimately show ?thesis by (simp add: setOrb_def random_def w2_def)
  qed
qed

text \<open>
  Claim C7. Step 7 of the tick (magnet pulse, forced magnetisation and the collection loop
  with its level-up \<^verbatim>\<open>while\<close>) returns, and afterwards \<open>0 \<le> xp < maxXp\<close>, whenever
  this held before, the threshold is at least 1, no orb has a negative value and the
  random number of the magnet pulse lies in \<open>[0, 1)\<close>. The game starts with
  \<open>xp = 0\<close> and \<open>maxXp = 100\<close>, and it only creates orbs of value 10 or 500.
\<close>

theorem xp_collection_keeps_xp_below_threshold:
  assumes "0 \<le> xp (player w)" "xp (player w) < maxXp (player w)" "1 \<le> maxXp (player w)"
    and "\<forall>orb \<in> set (xpOrbs w). 0 \<le> xpValue orb"
    and "0 \<le> rnd w 0" "rnd w 0 < 1"
  shows "\<exists>w'. xpOrbsStep isShockwaveActive w = Some w'
              \<and> 0 \<le> xp (player w') \<and> xp (player w') < maxXp (player w')
              \<and> 1 \<le> maxXp (player w')"
proof -
  from magnetPulse_total[OF assms(5,6)] obtain w1 where
    w1: "magnetPulse w = Some w1" "player w1 = player w"
        "map xpValue (xpOrbs w1) = map xpValue (xpOrbs w)" by blast
  define w2 where "w2 = (if justScanned w1 \<or> isShockwaveActive
                    then w1\<lparr>xpOrbs := map (\<lambda>orb. orb\<lparr>isMagnetized := True\<rparr>) (xpOrbs w1)\<rparr>
                    else w1)"
  have p2: "player w2 = player w" using w1(2) by (simp add: w2_def)
  have "map xpValue (xpOrbs w2) = map xpValue (xpOrbs w1)"
    by (simp add: w2_def comp_def)
  then have "xpValue ` set (xpOrbs w2) = xpValue ` set (xpOrbs w)"
    using w1(3) by (metis list.set_map)
  then have v2: "\<forall>orb \<in> set (xpOrbs w2). 0 \<le> xpValue orb"
    using assms(4) by (metis (mono_tags, lifting) image_iff)
  have "xpOrbsStep isShockwaveActive w = forDownOpt orbStep (length (xpOrbs w2)) w2"
    using w1(1) by (simp add: xpOrbsStep_def w2_def Let_def)
  moreover from orbLoop_total[of w2 "length (xpOrbs w2)"] assms(1-3) p2 v2
  obtain w' where "forDownOpt orbStep (length (xpOrbs w2)) w2 = Some w'"
    "0 \<le> xp (player w')" "xp (player w') < maxXp (player w')" "1 \<le> maxXp (player w')"
    by auto
  ultimately show ?thesis by simp
qed

theorem xp_collection_keeps_xp_below_threshold_witness:
  "0 \<le> xp (player orbWorld) \<and> xp (player orbWorld) < maxXp (player orbWorld)
   \<and> 1 \<le> maxXp (player orbWorld) \<and> map xpValue (xpOrbs orbWorld) = [500]
   \<and> 0 \<le> rnd orbWorld 0 \<and> rnd orbWorld 0 < 1
   \<and> (\<exists>w'. xpOrbsStep False orbWorld = Some w'
              \<and> 0 \<le> xp (player w') \<and> xp (player w') < maxXp (player w')
              \<and> 1 \<le> maxXp (player w'))"
proof -
  have h: "0 \<le> xp (player orbWorld)" "xp (player orbWorld) < maxXp (player orbWorld)"
    "1 \<le> maxXp (player orbWorld)" "\<forall>orb \<in> set (xpOrbs orbWorld). 0 \<le> xpValue orb"
    "0 \<le> rnd orbWorld 0" "rnd orbWorld 0 < 1"
    by (simp_all add: orbWorld_def idleWorld_def createInitialState_player_def bossOrb_def
          PLAYER_CONFIG_baseXp_def)
  have v: "map xpValue (xpOrbs orbWorld) = [500]"
    by (simp add: orbWorld_def idleWorld_def bossOrb_def)
  from xp_collection_keeps_xp_below_threshold[OF h] h(1,2,3,5,6) v show ?thesis by blast
qed

subsection \<open>Shockwaves\<close>

lemma setEnemy_frame [simp]:
  "player (setEnemy k e w) = player w" "phase (setEnemy k e w) = phase w"
  "projectiles (setEnemy k e w) = projectiles w" "xpOrbs (setEnemy k e w) = xpOrbs w"
  "shockwaves (setEnemy k e w) = shockwaves w" "asteroids (setEnemy k e w) = asteroids w"
  "levelUpQueued (setEnemy k e w) = levelUpQueued w"
  "justLeveledUp (setEnemy k e w) = justLeveledUp w"
  "justScanned (setEnemy k e w) = justScanned w"
  "enemies (setEnemy k e w) = (enemies w)[k := e]"
  by (simp_all add: setEnemy_def)

lemma empEnemy_frame [simp]:
  "player (empEnemy wave j w) = player w" "phase (empEnemy wave j w) = phase w"
  "projectiles (empEnemy wave j w) = projectiles w" "xpOrbs (empEnemy wave j w) = xpOrbs w"
  "shockwaves (empEnemy wave j w) = shockwaves w" "asteroids (empEnemy wave j w) = asteroids w"
  "levelUpQueued (empEnemy wave j w) = levelUpQueued w"
  "justLeveledUp (empEnemy wave j w) = justLeveledUp w"
  "justScanned (empEnemy wave j w) = justScanned w"
  by (simp_all add: empEnemy_def Let_def)

lemma empEnemy_enemies:
  "enemies (empEnemy wave j w) =
     (enemies w)[j := (if inRing wave (enemies w ! j) then (enemies w ! j)\<lparr>ehp := 0\<rparr>
                       else enemies w ! j)]"
  by (simp add: empEnemy_def Let_def)

lemma empFold_frame [simp]:
  "player (fold (empEnemy wave) js w) = player w"
  "phase (fold (empEnemy wave) js w) = phase w"
  "projectiles (fold (empEnemy wave) js w) = projectiles w"
  "xpOrbs (fold (empEnemy wave) js w) = xpOrbs w"
  "shockwaves (fold (empEnemy wave) js w) = shockwaves w"
  "asteroids (fold (empEnemy wave) js w) = asteroids w"
  "levelUpQueued (fold (empEnemy wave) js w) = levelUpQueued w"
  "justLeveledUp (fold (empEnemy wave) js w) = justLeveledUp w"
  "justScanned (fold (empEnemy wave) js w) = justScanned w"
  by (induction js arbitrary: w; simp)+

text \<open>What one wave does to one enemy.\<close>

lemma empFold_enemies:
  "n \<le> length (enemies w) \<Longrightarrow>
   enemies (fold (empEnemy wave) [0..<n] w) =
     map (\<lambda>e. if inRing wave e then e\<lparr>ehp := 0\<rparr> else e) (take n (enemies w))
     @ drop n (enemies w)"
proof (induction n)
  case 0
  show ?case by simp
next
  case (Suc n)
  then have n: "n < length (enemies w)" by simp
  let ?k = "\<lambda>e. if inRing wave e then e\<lparr>ehp := 0\<rparr> else e"
  let ?w = "fold (empEnemy wave) [0..<n] w"
  have IH: "enemies ?w = map ?k (take n (enemies w)) @ drop n (enemies w)"
    using Suc by simp
  have len: "length (map ?k (take n (enemies w))) = n" using n by simp
  have nth: "enemies ?w ! n = enemies w ! n"
    unfolding IH using n len by (simp add: nth_append)
  have "enemies (fold (empEnemy wave) [0..<Suc n] w) = (enemies ?w)[n := ?k (enemies w ! n)]"
    by (simp add: empEnemy_enemies nth)
  also have "\<dots> = map ?k (take n (enemies w)) @ (drop n (enemies w))[0 := ?k (enemies w ! n)]"
    unfolding IH using len by (simp add: list_update_append)
  also have "(drop n (enemies w))[0 := ?k (enemies w ! n)] = ?k (enemies w ! n) # drop (Suc n) (enemies w)"
    using n by (simp add: Cons_nth_drop_Suc[symmetric])
  also have "map ?k (take n (enemies w)) @ ?k (enemies w ! n) # drop (Suc n) (enemies w)
      = map ?k (take (Suc n) (enemies w)) @ drop (Suc n) (enemies w)"
    using n by (simp add: take_Suc_conv_app_nth)
  finally show ?case .
qed


lemma inRing_ehp [simp]: "inRing wave (e\<lparr>ehp := h\<rparr>) = inRing wave e"
  by (simp add: inRing_def)

lemma waveStep_enemies:
  "enemies (waveStep i w) =
     map (\<lambda>e. if inRing ((shockwaves w ! i)\<lparr>swradius := swradius (shockwaves w ! i)
                                                  + speed (shockwaves w ! i)\<rparr>) e
                then e\<lparr>ehp := 0\<rparr> else e) (enemies w)"
proof -
  let ?wave = "(shockwaves w ! i)\<lparr>swradius := swradius (shockwaves w ! i)
                                                  + speed (shockwaves w ! i)\<rparr>"
  let ?w1 = "w\<lparr>shockwaves := (shockwaves w)[i := ?wave]\<rparr>"
  have "enemies (waveStep i w) = enemies (fold (empEnemy ?wave) [0..<length (enemies ?w1)] ?w1)"
    by (simp add: waveStep_def Let_def)
  also have "\<dots> = map (\<lambda>e. if inRing ?wave e then e\<lparr>ehp := 0\<rparr> else e) (enemies ?w1)"
    using empFold_enemies[of "length (enemies ?w1)" ?w1 ?wave] by simp
  finally show ?thesis by simp
qed

lemma waveStep_shockwaves:
  "i < length (shockwaves w) \<Longrightarrow>
     take i (shockwaves (waveStep i w)) = take i (shockwaves w)
     \<and> i \<le> length (shockwaves (waveStep i w))"
  by (auto simp: waveStep_def Let_def removeAt_def)

lemma waveLoop_enemies:
  "n \<le> length (shockwaves w) \<Longrightarrow>
   enemies (forDown waveStep n w) =
     map (\<lambda>e. if list_ex (\<lambda>wave. inRing (wave\<lparr>swradius := swradius wave + speed wave\<rparr>) e)
                       (take n (shockwaves w))
                then e\<lparr>ehp := 0\<rparr> else e) (enemies w)"
proof (induction n arbitrary: w)
  case 0
  show ?case by simp
next
  case (Suc n)
  then have n: "n < length (shockwaves w)" by simp
  let ?w1 = "waveStep n w"
  from waveStep_shockwaves[OF n] have t: "take n (shockwaves ?w1) = take n (shockwaves w)"
    and l: "n \<le> length (shockwaves ?w1)" by simp_all
  have "enemies (forDown waveStep (Suc n) w) = enemies (forDown waveStep n ?w1)" by simp
  also have "\<dots> = map (\<lambda>e. if list_ex (\<lambda>wave. inRing (wave\<lparr>swradius := swradius wave + speed wave\<rparr>) e)
                       (take n (shockwaves w))
                then e\<lparr>ehp := 0\<rparr> else e) (enemies ?w1)"
    using Suc.IH[OF l] t by simp
  finally show ?case
    using n by (simp add: waveStep_enemies take_Suc_conv_app_nth comp_def cong: if_cong)
qed

lemma empEnemy_texts:
  "\<exists>fs. floatingTexts (empEnemy wave j w) = floatingTexts w @ fs
        \<and> map ftext fs = replicate (if inRing wave (enemies w ! j) then 1 else 0) (Lit TEXT_emp)"
  by (simp add: empEnemy_def Let_def addFloatingText_def random_def setEnemy_def)

lemma empFold_texts:
  "n \<le> length (enemies w) \<Longrightarrow>
   \<exists>fs. floatingTexts (fold (empEnemy wave) [0..<n] w) = floatingTexts w @ fs
        \<and> map ftext fs
            = replicate (length (filter (inRing wave) (take n (enemies w)))) (Lit TEXT_emp)"
proof (induction n)
  case 0
  show ?case by simp
next
  case (Suc n)
  then have n: "n < length (enemies w)" by simp
  let ?w = "fold (empEnemy wave) [0..<n] w"
  from Suc obtain fs where fs: "floatingTexts ?w = floatingTexts w @ fs"
    "map ftext fs = replicate (length (filter (inRing wave) (take n (enemies w)))) (Lit TEXT_emp)"
    by auto
  have nth: "enemies ?w ! n = enemies w ! n"
    using n by (simp add: empFold_enemies nth_append)
  from empEnemy_texts[of wave n ?w] obtain gs where gs:
    "floatingTexts (empEnemy wave n ?w) = floatingTexts ?w @ gs"
    "map ftext gs = replicate (if inRing wave (enemies w ! n) then 1 else 0) (Lit TEXT_emp)"
    unfolding nth by blast
  have "floatingTexts (fold (empEnemy wave) [0..<Suc n] w) = floatingTexts w @ (fs @ gs)"
    using fs(1) gs(1) by simp
  moreover have "map ftext (fs @ gs)
     = replicate (length (filter (inRing wave) (take (Suc n) (enemies w)))) (Lit TEXT_emp)"
    using fs(2) gs(2) n by (simp add: take_Suc_conv_app_nth replicate_add[symmetric])
  ultimately show ?case by blast
qed

lemma waveStep_texts:
  "\<exists>fs. floatingTexts (waveStep i w) = floatingTexts w @ fs
        \<and> map ftext fs
            = replicate (length (filter (inRing ((shockwaves w ! i)
                   \<lparr>swradius := swradius (shockwaves w ! i) + speed (shockwaves w ! i)\<rparr>))
                 (enemies w))) (Lit TEXT_emp)"
proof -
  let ?wave = "(shockwaves w ! i)\<lparr>swradius := swradius (shockwaves w ! i)
                                                  + speed (shockwaves w ! i)\<rparr>"
  let ?w1 = "w\<lparr>shockwaves := (shockwaves w)[i := ?wave]\<rparr>"
  have "floatingTexts (waveStep i w)
        = floatingTexts (fold (empEnemy ?wave) [0..<length (enemies ?w1)] ?w1)"
    by (simp add: waveStep_def Let_def)
  then show ?thesis
    using empFold_texts[of "length (enemies ?w1)" ?w1 ?wave] by simp
qed

lemma filter_inRing_killed:
  "length (filter (inRing wave) (map (\<lambda>e. if P e then e\<lparr>ehp := 0\<rparr> else e) es))
     = length (filter (inRing wave) es)"
  by (induction es) simp_all

lemma waveLoop_texts:
  "n \<le> length (shockwaves w) \<Longrightarrow>
   \<exists>fs. floatingTexts (forDown waveStep n w) = floatingTexts w @ fs
        \<and> map ftext fs
            = replicate
                (sum_list (map (\<lambda>wave. length (filter
                     (inRing (wave\<lparr>swradius := swradius wave + speed wave\<rparr>)) (enemies w)))
                   (take n (shockwaves w))))
                (Lit TEXT_emp)"
proof (induction n arbitrary: w)
  case 0
  show ?case by simp
next
  case (Suc n)
  then have n: "n < length (shockwaves w)" by simp
  let ?w1 = "waveStep n w"
  let ?c = "\<lambda>es wave. length (filter
                     (inRing (wave\<lparr>swradius := swradius wave + speed wave\<rparr>)) es)"
  from waveStep_shockwaves[OF n] have t: "take n (shockwaves ?w1) = take n (shockwaves w)"
    and l: "n \<le> length (shockwaves ?w1)" by simp_all
  from waveStep_texts[of n w] obtain fs where fs:
    "floatingTexts ?w1 = floatingTexts w @ fs"
    "map ftext fs = replicate (?c (enemies w) (shockwaves w ! n)) (Lit TEXT_emp)" by blast
  from Suc.IH[OF l] obtain gs where gs:
    "floatingTexts (forDown waveStep n ?w1) = floatingTexts ?w1 @ gs"
    "map ftext gs = replicate (sum_list (map (?c (enemies ?w1)) (take n (shockwaves ?w1))))
                      (Lit TEXT_emp)" by blast
  have c: "?c (enemies ?w1) = ?c (enemies w)"
    by (rule ext) (simp only: waveStep_enemies filter_inRing_killed)
  have "floatingTexts (forDown waveStep (Suc n) w) = floatingTexts w @ (fs @ gs)"
    using fs(1) gs(1) by simp
  moreover have "map ftext (fs @ gs)
      = replicate (sum_list (map (?c (enemies w)) (take (Suc n) (shockwaves w)))) (Lit TEXT_emp)"
    using fs(2) gs(2) n unfolding c t
    by (simp add: take_Suc_conv_app_nth replicate_add[symmetric] add.commute)
  ultimately show ?case by blast
qed

lemma inRing_grown:
  "inRing (wave\<lparr>swradius := swradius wave + speed wave\<rparr>) e =
     (swradius wave - speed wave < distV (position e) (swposition wave)
      \<and> distV (position e) (swposition wave) < swradius wave + speed wave)"
  by (auto simp: inRing_def Let_def)

lemma shockwavesStep_enemies:
  "enemies (shockwavesStep w) =
     map (\<lambda>e. if list_ex (\<lambda>wave. swradius wave - speed wave < distV (position e) (swposition wave)
                                \<and> distV (position e) (swposition wave) < swradius wave + speed wave)
                       (shockwaves w)
                then e\<lparr>ehp := 0\<rparr> else e) (enemies w)"
  using waveLoop_enemies[of "length (shockwaves w)" w]
  by (simp add: shockwavesStep_def inRing_grown)

lemma shockwavesStep_texts:
  "\<exists>fs. floatingTexts (shockwavesStep w) = floatingTexts w @ fs
        \<and> map ftext fs
            = replicate
                (sum_list (map (\<lambda>wave. length (filter
                     (\<lambda>e. swradius wave - speed wave < distV (position e) (swposition wave)
                          \<and> distV (position e) (swposition wave) < swradius wave + speed wave)
                     (enemies w)))
                   (shockwaves w)))
                (Lit TEXT_emp)"
proof -
  have e: "\<And>wave. inRing (wave\<lparr>swradius := swradius wave + speed wave\<rparr>)
      = (\<lambda>e. swradius wave - speed wave < distV (position e) (swposition wave)
                          \<and> distV (position e) (swposition wave) < swradius wave + speed wave)"
    by (rule ext) (rule inRing_grown)
  show ?thesis
    using waveLoop_texts[of "length (shockwaves w)" w]
    by (simp add: shockwavesStep_def e)
qed

text \<open>
  Claim C8, as amended. In step 5 of a tick every shockwave first grows by its speed and
  then sets to 0 the hp of exactly the enemies whose distance \<open>d\<close> from its centre lies
  strictly inside the ring of the grown radius, \<open>radius + speed - 2 * speed < d < radius + speed\<close>,
  that is \<open>radius - speed < d < radius + speed\<close> for the radius at the start of the tick;
  every other enemy is left as it is, and one floating text \<^verbatim>\<open>EMP\<close> is added for each
  enemy a wave catches.
\<close>

theorem shockwave_kills_open_ring:
  "enemies (shockwavesStep w) =
     map (\<lambda>e. if list_ex (\<lambda>wave. swradius wave - speed wave < distV (position e) (swposition wave)
                                \<and> distV (position e) (swposition wave) < swradius wave + speed wave)
                       (shockwaves w)
                then e\<lparr>ehp := 0\<rparr> else e) (enemies w)
   \<and> (\<exists>fs. floatingTexts (shockwavesStep w) = floatingTexts w @ fs
        \<and> map ftext fs
            = replicate
                (sum_list (map (\<lambda>wave. length (filter
                     (\<lambda>e. swradius wave - speed wave < distV (position e) (swposition wave)
                          \<and> distV (position e) (swposition wave) < swradius wave + speed wave)
                     (enemies w)))
                   (shockwaves w)))
                (Lit TEXT_emp))"
  using shockwavesStep_enemies[of w] shockwavesStep_texts[of w] by blast

text \<open>
  Claim C8, as stated, fails. A wave of radius 50 and speed 25 has radius 75 when it tests
  the enemies. The enemy at distance 25 lies in the band \<open>[75 - 50, 75)\<close> of the claim, and
  the enemy at distance 10 lies in \<open>[50 - 50, 50)\<close>, the band of the radius before the
  growth, yet both keep their hp; only the enemy at distance 45 is destroyed.
\<close>

theorem shockwave_closed_band_counterexample:
  "map (\<lambda>e. distV (position e) (swposition (hd (shockwaves ringWorld)))) (enemies ringWorld)
     = [10, 25, 45]
   \<and> swradius (hd (shockwaves ringWorld)) = 50 \<and> speed (hd (shockwaves ringWorld)) = 25
   \<and> map ehp (enemies ringWorld) = [30, 30, 30]
   \<and> map ehp (enemies (shockwavesStep ringWorld)) = [30, 30, 0]"
  by (simp add: shockwavesStep_enemies ringWorld_def idleWorld_def ringEnemy_def distV_def)

subsection \<open>Evaluating a tick on a concrete world\<close>

lemma distV_level [simp]: "distV \<lparr>X = a, Y = c\<rparr> \<lparr>X = b, Y = c\<rparr> = \<bar>b - a\<bar>"
  by (simp add: distV_def)

lemma hypot_level [simp]: "hypot a 0 = \<bar>a\<bar>"
  by (simp add: hypot_def)

lemma atan2_level [simp]: "0 < a \<Longrightarrow> atan2 0 a = 0" "a < 0 \<Longrightarrow> atan2 0 a = pi"
  by (simp_all add: atan2_def)

lemmas tick_defs = updateGame_def paused_def shakeDecay_def timersStep_def 
   playerStep_def findTargets_def considerTarget_def rotatePlayer_def fireWeapon_def setCooldown_def
   enemiesStep_def enemyStep_def moveEnemy_def contactDamage_def setEnemy_def
   projectilesStep_def projectileStep_def homing_def integrate_def setProjectile_def
   hitAsteroids_def hitEnemies_def hitPlayer_def splash_def
   shockwavesStep_def cleanupStep_def cleanupEnemy_def xpOrbsStep_def magnetPulse_def
   particlesTextStep_def particleStep_def textStep_def levelUpStep_def gameOverStep_def
   addFloatingText_def random_def removeAt_def angle_def

lemmas world_defs = idleWorld_def createInitialState_player_def createInitialState_weapons_def
   SCREEN_WIDTH_def SCREEN_HEIGHT_def PLAYER_CONFIG_baseHp_def PLAYER_CONFIG_baseXp_def


subsection \<open>Projectiles\<close>

lemma findIndex_Some:
  "findIndex P xs = Some j \<Longrightarrow> j < length xs \<and> P (xs ! j)"
proof (induction xs arbitrary: j)
  case Nil
  then show ?case by simp
next
  case (Cons a as)
  show ?case
  proof (cases "P a")
    case True
    with Cons.prems show ?thesis by simp
  next
    case False
    with Cons.prems obtain k where k: "findIndex P as = Some k" "j = Suc k" by auto
    from Cons.IH[OF k(1)] k(2) show ?thesis by simp
  qed
qed

lemma setProjectile_frame [simp]:
  "player (setProjectile i p w) = player w" "phase (setProjectile i p w) = phase w"
  "enemies (setProjectile i p w) = enemies w" "xpOrbs (setProjectile i p w) = xpOrbs w"
  "shockwaves (setProjectile i p w) = shockwaves w" "asteroids (setProjectile i p w) = asteroids w"
  "levelUpQueued (setProjectile i p w) = levelUpQueued w"
  "justLeveledUp (setProjectile i p w) = justLeveledUp w"
  "justScanned (setProjectile i p w) = justScanned w"
  "projectiles (setProjectile i p w) = (projectiles w)[i := p]"
  by (simp_all add: setProjectile_def)

lemma homing_frame [simp]:
  "player (homing i w) = player w" "phase (homing i w) = phase w"
  "enemies (homing i w) = enemies w" "xpOrbs (homing i w) = xpOrbs w"
  "shockwaves (homing i w) = shockwaves w" "asteroids (homing i w) = asteroids w"
  "levelUpQueued (homing i w) = levelUpQueued w"
  "justLeveledUp (homing i w) = justLeveledUp w"
  "justScanned (homing i w) = justScanned w"
  by (simp_all add: homing_def Let_def split: option.splits)

lemma integrate_frame [simp]:
  "player (integrate i w) = player w" "phase (integrate i w) = phase w"
  "enemies (integrate i w) = enemies w" "xpOrbs (integrate i w) = xpOrbs w"
  "shockwaves (integrate i w) = shockwaves w" "asteroids (integrate i w) = asteroids w"
  "levelUpQueued (integrate i w) = levelUpQueued w"
  "justLeveledUp (integrate i w) = justLeveledUp w"
  "justScanned (integrate i w) = justScanned w"
  by (simp_all add: integrate_def Let_def)

lemma hitEnemies_missile:
  assumes "ptype p = MISSILE_PROJ"
    and "findIndex (\<lambda>e. distV (position p) (position e) < radius e + radius p) (enemies w) = Some j"
  shows "fst (hitEnemies p w) = True"
    and "enemies (snd (hitEnemies p w))
          = splash p ((enemies w)[j := (enemies w ! j)\<lparr>ehp := ehp (enemies w ! j) - damage p\<rparr>])"
  using assms by (simp_all add: hitEnemies_def Let_def)

text \<open>
  Claim C1, as amended. When a player missile, at its position after this tick's movement,
  hits an enemy (the first one in array order within the sum of the radii), that enemy
  loses the missile's damage, and then every enemy of the array that is less than 80 away
  from the missile loses half of the damage as well: the enemy that was hit is not left
  out of the splash.
\<close>

theorem missile_splash_includes_hit_enemy:
  assumes "p = projectiles (integrate i (homing i w)) ! i"
    and "\<not> isEnemy p" and "ptype p = MISSILE_PROJ"
    and "findIndex (\<lambda>e. distV (position p) (position e) < radius e + radius p) (enemies w) = Some j"
  shows "length (enemies (projectileStep i w)) = length (enemies w)
     \<and> (\<forall>k < length (enemies w).
           enemies (projectileStep i w) ! k =
             (enemies w ! k)
               \<lparr>ehp := ehp (enemies w ! k)
                        - (if k = j then damage p else 0)
                        - (if distV (position p) (position (enemies w ! k)) < 80
                           then damage p * 0.5 else 0)\<rparr>)"
proof -
  let ?w1 = "integrate i (homing i w)"
  have e1: "enemies ?w1 = enemies w" by simp
  have a: "hitAsteroids p ?w1 = (False, ?w1)" using assms(3) by (simp add: hitAsteroids_def)
  have f: "findIndex (\<lambda>e. distV (position p) (position e) < radius e + radius p) (enemies ?w1) = Some j"
    using assms(4) by simp
  note h = hitEnemies_missile[OF assms(3) f]
  have "enemies (projectileStep i w) = enemies (snd (hitEnemies p ?w1))"
    using assms(1,2) a h(1)
    by (simp add: projectileStep_def Let_def split_def)
  then have es: "enemies (projectileStep i w)
          = splash p ((enemies w)[j := (enemies w ! j)\<lparr>ehp := ehp (enemies w ! j) - damage p\<rparr>])"
    using h(2) by simp
  from findIndex_Some[OF assms(4)] have j: "j < length (enemies w)" by simp
  show ?thesis
    unfolding es
  proof (intro conjI allI impI)
    show "length (splash p ((enemies w)[j := (enemies w ! j)\<lparr>ehp := ehp (enemies w ! j) - damage p\<rparr>]))
            = length (enemies w)"
      by (simp add: splash_def)
  next
    fix k assume k: "k < length (enemies w)"
    show "splash p ((enemies w)[j := (enemies w ! j)\<lparr>ehp := ehp (enemies w ! j) - damage p\<rparr>]) ! k
          = (enemies w ! k)
               \<lparr>ehp := ehp (enemies w ! k)
                        - (if k = j then damage p else 0)
                        - (if distV (position p) (position (enemies w ! k)) < 80
                           then damage p * 0.5 else 0)\<rparr>"
      using k j by (cases "k = j") (simp_all add: splash_def)
  qed
qed

theorem missile_splash_includes_hit_enemy_witness:
  "projectiles (integrate 0 (homing 0 missileWorld)) ! 0
     = lostMissile\<lparr>position := \<lparr>X = 894, Y = 360\<rparr>, duration := 99\<rparr>
   \<and> \<not> isEnemy lostMissile \<and> ptype lostMissile = MISSILE_PROJ
   \<and> findIndex (\<lambda>e. distV \<lparr>X = 894, Y = 360\<rparr> (position e) < radius e + radius lostMissile)
         (enemies missileWorld) = Some 0
   \<and> ehp (enemies missileWorld ! 0) = 300
   \<and> ehp (enemies (projectileStep 0 missileWorld) ! 0) = 300 - 80 - 40"
proof -
  define p where "p = lostMissile\<lparr>position := \<lparr>X = 894, Y = 360\<rparr>, duration := 99\<rparr>"
  have h1: "p = projectiles (integrate 0 (homing 0 missileWorld)) ! 0"
    by (simp add: p_def integrate_def homing_def setProjectile_def missileWorld_def
          idleWorld_def lostMissile_def)
  have h2: "\<not> isEnemy p" and h3: "ptype p = MISSILE_PROJ"
    by (simp_all add: p_def lostMissile_def)
  have h4: "findIndex (\<lambda>e. distV (position p) (position e) < radius e + radius p)
         (enemies missileWorld) = Some 0"
    by (simp add: p_def missileWorld_def idleWorld_def lostMissile_def tank_def)
  have d: "distV (position p) (position (enemies missileWorld ! 0)) < 80" "damage p = 80"
    "ehp (enemies missileWorld ! 0) = 300" "length (enemies missileWorld) = 1"
    by (simp_all add: p_def missileWorld_def idleWorld_def lostMissile_def tank_def)
  from missile_splash_includes_hit_enemy[OF h1 h2 h3 h4] d
  have r: "ehp (enemies (projectileStep 0 missileWorld) ! 0) = 300 - 80 - 40" by simp
  have c2: "\<not> isEnemy lostMissile" and c3: "ptype lostMissile = MISSILE_PROJ"
    by (simp_all add: lostMissile_def)
  have c4: "findIndex (\<lambda>e. distV \<lparr>X = 894, Y = 360\<rparr> (position e) < radius e + radius lostMissile)
         (enemies missileWorld) = Some 0"
    by (simp add: missileWorld_def idleWorld_def lostMissile_def tank_def)
  show ?thesis
    using h1[symmetric] c2 c3 c4 d(3) r unfolding p_def by (intro conjI)
qed

text \<open>
  Claim C1, as stated, fails. A tank with 300 hp is hit by a missile of damage 80: after
  the tick it has 180 hp, the direct damage and the splash, where the claim has 220.
\<close>

theorem missile_hit_enemy_takes_splash_too:
  "map ehp (enemies missileWorld) = [300]
   \<and> map damage (projectiles missileWorld) = [80]
   \<and> map ptype (projectiles missileWorld) = [MISSILE_PROJ]
   \<and> map isEnemy (projectiles missileWorld) = [False]
   \<and> map_option (\<lambda>w'. map ehp (enemies w')) (updateGame missileWorld) = Some [180]"
  by (simp add: tick_defs world_defs missileWorld_def tank_def lostMissile_def Let_def
        eval_nat_numeral)

subsection \<open>Victory\<close>

text \<open>
  Claim C2, on the code. The engine sets the phase \<^verbatim>\<open>VICTORY\<close> in the tick in which the
  last shockwave leaves, and promotes the queued level-up in the same tick; the host loop
  then overwrites the phase with \<^verbatim>\<open>LEVEL_UP\<close>. After the upgrade is chosen the game is
  back in \<^verbatim>\<open>IDLE\<close> with ten crystals, no shockwave and a living player.
\<close>

theorem victory_overwritten_by_queued_level_up:
  "phase empClearingWorld = IDLE
   \<and> crystals (player empClearingWorld) = 10
   \<and> length (shockwaves empClearingWorld) = 1
   \<and> levelUpQueued empClearingWorld
   \<and> map_option (\<lambda>w. (phase w, justLeveledUp w)) (updateGame empClearingWorld)
        = Some (VICTORY, True)
   \<and> map_option (\<lambda>w. (phase w, crystals (player w), shockwaves w, hp (player w)))
        (hostTick empClearingWorld) = Some (LEVEL_UP, 10, [], 100)
   \<and> map_option (\<lambda>w. (phase w, crystals (player w), shockwaves w, hp (player w)))
        (Option.bind (hostTick empClearingWorld) (\<lambda>w. hostTick (selectUpgrade HEAL w)))
        = Some (IDLE, 10, [], 100)"
  by (simp add: hostTick_def selectUpgrade_def applyUpgrade_def waveStep_def TARGET_CRYSTALS_def
        tick_defs world_defs empClearingWorld_def Let_def eval_nat_numeral)

subsection \<open>The laser\<close>

text \<open>
  Claim C6, on the code. With the laser unlocked and a tank in the open within its range
  during three consecutive ticks, the tank loses 2 hp in the first tick, nothing in the
  second (the cooldown was reset to \<^verbatim>\<open>maxCooldown = 1\<close> and is only counted down), and 2 hp
  again in the third. No projectile is created.
\<close>

theorem laser_fires_every_other_tick:
  "wlevel (weapons (player laserWorld) LASER) = 1
   \<and> wrange (weapons (player laserWorld) LASER) = 300
   \<and> wdamage (weapons (player laserWorld) LASER) = 2
   \<and> asteroids laserWorld = []
   \<and> map ehp (enemies laserWorld) = [300]
   \<and> map_option (\<lambda>w. (map ehp (enemies w), map (\<lambda>e. distV (position (player w)) (position e)) (enemies w)))
        (updateGame laserWorld) = Some ([298], [99.8625])
   \<and> map_option (\<lambda>w. (map ehp (enemies w), map (\<lambda>e. distV (position (player w)) (position e)) (enemies w)))
        (Option.bind (updateGame laserWorld) updateGame) = Some ([298], [99.725])
   \<and> map_option (\<lambda>w. map ehp (enemies w))
        (Option.bind (Option.bind (updateGame laserWorld) updateGame) updateGame) = Some [296]
   \<and> map_option (\<lambda>w. length (projectiles w))
        (Option.bind (Option.bind (updateGame laserWorld) updateGame) updateGame) = Some 0"
  by (simp add: fireLaser_def 
        tick_defs world_defs laserWorld_def nearTank_def Let_def eval_nat_numeral)

subsection \<open>What each step of the tick leaves alone\<close>

lemma samplePosition_frame:
  assumes "samplePosition w = Some res"
  shows "snd res = w\<lparr>rnd := rnd (snd res)\<rparr>"
  using assms
proof (induction rule: samplePosition.raw_induct[rotated 1, consumes 1, case_names step])
  case (step sp w res)
  show ?case
  proof (cases "distV \<lparr>X = fst (random w) * SCREEN_WIDTH,
                       Y = fst (random (snd (random w))) * SCREEN_HEIGHT\<rparr>
                  (position (player (snd (random (snd (random w)))))) < 150")
    case True
    with step.hyps have "sp (snd (random (snd (random w)))) = Some res"
      by (simp add: Let_def split_def)
    from step.IH[OF this] have "snd res = (snd (random (snd (random w))))\<lparr>rnd := rnd (snd res)\<rparr>" .
    then show ?thesis by (simp add: random_def)
  next
    case False
    with step.hyps have "snd res = snd (random (snd (random w)))"
      by (auto simp: Let_def split_def)
    then show ?thesis by (simp add: random_def)
  qed
qed

lemma asteroidLoop_frame:
  "asteroidLoop n i w = Some w' \<Longrightarrow> w' = w\<lparr>asteroids := asteroids w', rnd := rnd w'\<rparr>"
proof (induction n arbitrary: i w)
  case 0
  then show ?case by simp
next
  case (Suc n)
  from Suc.prems obtain pos w1 where s: "samplePosition w = Some (pos, w1)"
    by (auto split: option.splits)
  from samplePosition_frame[OF s] have w1: "w1 = w\<lparr>rnd := rnd w1\<rparr>" by simp
  from Suc.prems s obtain ast r where "asteroidLoop n (Suc i) (w1\<lparr>rnd := r, asteroids := ast\<rparr>) = Some w'"
    by (auto simp: Let_def split_def random_def)
  from Suc.IH[OF this] have "w' = w1\<lparr>asteroids := asteroids w', rnd := rnd w'\<rparr>" by simp
  then show ?case by (subst (asm) w1) simp
qed

lemma spawnAsteroids_frame:
  "spawnAsteroids w = Some w' \<Longrightarrow> w' = w\<lparr>asteroids := asteroids w', rnd := rnd w'\<rparr>"
proof -
  assume "spawnAsteroids w = Some w'"
  then obtain n r where "asteroidLoop n 0 (w\<lparr>asteroids := [], rnd := r\<rparr>) = Some w'"
    by (auto simp: spawnAsteroids_def Let_def split_def random_def)
  from asteroidLoop_frame[OF this] show ?thesis by simp
qed


lemma warpStep_done:
  assumes "warpTimer w - 1 / 60 \<le> 0" "warpStep w = Some w'"
  shows "phase w' = IDLE" "enemies w' = []" "xpOrbs w' = []" "projectiles w' = []"
    "shockwaves w' = []" "levelUpQueued w' = False" "justLeveledUp w' = justLeveledUp w"
    "player w' = player w"
proof -
  let ?w1 = "w\<lparr>warpTimer := warpTimer w - 1 / 60, phase := IDLE\<rparr>"
  from assms obtain w2 where w2: "spawnAsteroids ?w1 = Some w2"
    and w': "w' = w2\<lparr>enemies := [], xpOrbs := [], projectiles := [], shockwaves := [],
                      levelUpQueued := False\<rparr>"
    by (auto simp: warpStep_def Let_def split: option.splits)
  note eq = spawnAsteroids_frame[OF w2]
  show "phase w' = IDLE" using arg_cong[OF eq, of phase] by (simp add: w')
  show "justLeveledUp w' = justLeveledUp w" using arg_cong[OF eq, of justLeveledUp] by (simp add: w')
  show "player w' = player w" using arg_cong[OF eq, of player] by (simp add: w')
  show "enemies w' = []" "xpOrbs w' = []" "projectiles w' = []"
    "shockwaves w' = []" "levelUpQueued w' = False" by (simp_all add: w')
qed

lemma warpStep_frame:
  assumes "warpStep w = Some w'"
  shows "player w' = player w" "phase w' = phase w \<or> phase w' = IDLE"
    "projectiles w' = projectiles w \<or> projectiles w' = []"
proof -
  show "player w' = player w"
  proof (cases "warpTimer w - 1 / 60 \<le> 0")
    case True from warpStep_done(8)[OF True assms] show ?thesis .
  next
    case False with assms show ?thesis by (auto simp: warpStep_def Let_def)
  qed
  show "phase w' = phase w \<or> phase w' = IDLE"
  proof (cases "warpTimer w - 1 / 60 \<le> 0")
    case True from warpStep_done(1)[OF True assms] show ?thesis by simp
  next
    case False with assms show ?thesis by (auto simp: warpStep_def Let_def)
  qed
  show "projectiles w' = projectiles w \<or> projectiles w' = []"
  proof (cases "warpTimer w - 1 / 60 \<le> 0")
    case True from warpStep_done(4)[OF True assms] show ?thesis by simp
  next
    case False with assms show ?thesis by (auto simp: warpStep_def Let_def)
  qed
qed

lemma triggerShockwave_frame [simp]:
  "player (triggerShockwave w pos) = player w" "phase (triggerShockwave w pos) = phase w"
  "projectiles (triggerShockwave w pos) = projectiles w"
  "asteroids (triggerShockwave w pos) = asteroids w"
  by (simp_all add: triggerShockwave_def)

lemma scanComplete_frame:
  "player (scanComplete w) = (player w)\<lparr>crystals := crystals (player w) + 1\<rparr>"
  "phase (scanComplete w) = IDLE"
  "projectiles (scanComplete w) = projectiles w"
  by (simp_all add: scanComplete_def Let_def split: option.splits)

lemma scanStep_frame:
  "player (scanStep w) = player w
     \<or> player (scanStep w) = (player w)\<lparr>crystals := crystals (player w) + 1\<rparr>"
  "phase (scanStep w) = phase w \<or> phase (scanStep w) = IDLE"
  "projectiles (scanStep w) = projectiles w"
  by (simp_all add: scanStep_def scanComplete_frame Let_def)

lemma timersStep_frame:
  assumes "timersStep w = Some w'"
  shows "player w' = player w \<or> player w' = (player w)\<lparr>crystals := crystals (player w) + 1\<rparr>"
    "phase w' = phase w \<or> phase w' = IDLE"
    "projectiles w' = projectiles w \<or> projectiles w' = []"
proof -
  consider (warp) "phase w = WARPING" "warpStep w = Some w'"
    | (scan) "phase w = SCANNING" "w' = scanStep w"
    | (other) "w' = w"
    using assms by (cases "phase w = WARPING"; cases "phase w = SCANNING")
                   (simp_all add: timersStep_def)
  then have "(player w' = player w \<or> player w' = (player w)\<lparr>crystals := crystals (player w) + 1\<rparr>)
      \<and> (phase w' = phase w \<or> phase w' = IDLE)
      \<and> (projectiles w' = projectiles w \<or> projectiles w' = [])"
  proof cases
    case warp
    from warpStep_frame[OF warp(2)] show ?thesis by simp
  next
    case scan
    from scanStep_frame[of w] show ?thesis unfolding scan(2) by simp
  next
    case other
    then show ?thesis by simp
  qed
  then show "player w' = player w \<or> player w' = (player w)\<lparr>crystals := crystals (player w) + 1\<rparr>"
    "phase w' = phase w \<or> phase w' = IDLE"
    "projectiles w' = projectiles w \<or> projectiles w' = []" by simp_all
qed

subsection \<open>Step 2: the weapons\<close>

lemma setCooldown_frame [simp]:
  "phase (setCooldown t c w) = phase w" "enemies (setCooldown t c w) = enemies w"
  "projectiles (setCooldown t c w) = projectiles w" "xpOrbs (setCooldown t c w) = xpOrbs w"
  "shockwaves (setCooldown t c w) = shockwaves w" "asteroids (setCooldown t c w) = asteroids w"
  "levelUpQueued (setCooldown t c w) = levelUpQueued w"
  "justLeveledUp (setCooldown t c w) = justLeveledUp w"
  "justScanned (setCooldown t c w) = justScanned w"
  "player (setCooldown t c w)
     = (player w)\<lparr>weapons := (weapons (player w))(t := (weapons (player w) t)\<lparr>cooldown := c\<rparr>)\<rparr>"
  by (simp_all add: setCooldown_def)

lemma fireMachineGun_frame:
  "phase (fireMachineGun w) = phase w" "enemies (fireMachineGun w) = enemies w"
  "xpOrbs (fireMachineGun w) = xpOrbs w" "shockwaves (fireMachineGun w) = shockwaves w"
  "asteroids (fireMachineGun w) = asteroids w"
  "levelUpQueued (fireMachineGun w) = levelUpQueued w"
  "justLeveledUp (fireMachineGun w) = justLeveledUp w"
  "justScanned (fireMachineGun w) = justScanned w"
  "player (fireMachineGun w)
     = (player w)\<lparr>weapons := (weapons (player w))
          (MACHINE_GUN := (weapons (player w) MACHINE_GUN)
             \<lparr>cooldown := maxCooldown (weapons (player w) MACHINE_GUN)\<rparr>)\<rparr>"
  "\<exists>p. projectiles (fireMachineGun w) = projectiles w @ [p] \<and> \<not> isEnemy p"
  by (simp_all add: fireMachineGun_def Let_def split_def random_def)

lemma fireMissile_frame:
  "phase (fireMissile j w) = phase w" "enemies (fireMissile j w) = enemies w"
  "xpOrbs (fireMissile j w) = xpOrbs w" "shockwaves (fireMissile j w) = shockwaves w"
  "asteroids (fireMissile j w) = asteroids w"
  "levelUpQueued (fireMissile j w) = levelUpQueued w"
  "justLeveledUp (fireMissile j w) = justLeveledUp w"
  "justScanned (fireMissile j w) = justScanned w"
  "player (fireMissile j w)
     = (player w)\<lparr>weapons := (weapons (player w))
          (MISSILE := (weapons (player w) MISSILE)
             \<lparr>cooldown := maxCooldown (weapons (player w) MISSILE)\<rparr>)\<rparr>"
  "\<exists>p. projectiles (fireMissile j w) = projectiles w @ [p] \<and> \<not> isEnemy p"
  by (simp_all add: fireMissile_def Let_def split_def random_def)

lemma fireLaser_frame:
  "phase (fireLaser j w) = phase w"
  "enemies (fireLaser j w)
     = (enemies w)[j := (enemies w ! j)\<lparr>ehp := ehp (enemies w ! j) - wdamage (weapons (player w) LASER)\<rparr>]"
  "xpOrbs (fireLaser j w) = xpOrbs w" "shockwaves (fireLaser j w) = shockwaves w"
  "asteroids (fireLaser j w) = asteroids w"
  "levelUpQueued (fireLaser j w) = levelUpQueued w"
  "justLeveledUp (fireLaser j w) = justLeveledUp w"
  "justScanned (fireLaser j w) = justScanned w"
  "player (fireLaser j w)
     = (player w)\<lparr>weapons := (weapons (player w))
          (LASER := (weapons (player w) LASER)
             \<lparr>cooldown := maxCooldown (weapons (player w) LASER)\<rparr>)\<rparr>"
  "projectiles (fireLaser j w) = projectiles w"
  by (simp_all add: fireLaser_def Let_def split_def)

subsection \<open>Loops that leave an observation alone\<close>

lemma forDown_frame:
  assumes "\<And>i w. sel (body i w) = sel w"
  shows "sel (forDown body n w) = sel w"
  by (induction n arbitrary: w) (simp_all add: assms)

lemma forDownOpt_frame:
  assumes "\<And>i w w'. body i w = Some w' \<Longrightarrow> sel w' = sel w"
    and "forDownOpt body n w = Some w'"
  shows "sel w' = sel w"
  using assms(2)
proof (induction n arbitrary: w)
  case 0
  then show ?case by simp
next
  case (Suc n)
  then obtain w1 where b: "body n w = Some w1" and r: "forDownOpt body n w1 = Some w'"
    by (auto split: option.splits)
  from Suc.IH[OF r] assms(1)[OF b] show ?case by simp
qed


subsection \<open>Step 8 only touches particles and texts\<close>







subsection \<open>The tick on an empty arena\<close>







subsection \<open>Warp completion on a concrete world\<close>





end
